theory Spec2Isabelle
  imports Main "HOL-Library.Sublist"
begin

section \<open>The user store of the profile front end\<close>

text \<open>
  A shallow embedding of \<^verbatim>\<open>frontend/src/stores/userStore.ts\<close>: the cookie helper
  \<^verbatim>\<open>getCookie\<close> and the actions of the Pinia store \<^verbatim>\<open>useUserStore\<close>.
  The store's actions are asynchronous but each one runs its awaits in program order, so
  an action is a function from the container state and the environment (cookie string,
  server, log of effects) to a result, the new state and the new environment.
\<close>

subsection \<open>Strings: \<^verbatim>\<open>String.prototype.split\<close>\<close>

text \<open>
  \<^verbatim>\<open>s.split(sep)\<close> with a string separator: the string is scanned from the left, every
  match of the separator ends a part and the scan goes on behind the match. An empty
  separator cuts the string into its single characters.
\<close>

function split_str :: "string \<Rightarrow> string \<Rightarrow> string list" where
  "split_str sep [] = (if sep = [] then [] else [[]])"
| "split_str sep (c # cs) =
     (if sep = [] then map (\<lambda>x. [x]) (c # cs)
      else if prefix sep (c # cs) then [] # split_str sep (drop (length sep) (c # cs))
      else (case split_str sep cs of
              [] \<Rightarrow> [[c]]
            | p # ps \<Rightarrow> (c # p) # ps))"
  by pat_completeness auto
termination
  by (relation "measure (\<lambda>(sep, s). length s)") auto

subsection \<open>\<^verbatim>\<open>getCookie\<close>\<close>

text \<open>
  \<^verbatim>\<open>
  export function getCookie(name: string): string | null {
    const value = `; ${document.cookie}`;
    const parts = value.split(`; ${name}=`);
    if (parts.length === 2) return parts.pop()?.split(';').shift() || null;
    return null;
  }
  \<close>
  The global \<^verbatim>\<open>document.cookie\<close> is the first argument. \<^verbatim>\<open>null\<close> is \<open>None\<close>; the
  empty string is falsy, so \<^verbatim>\<open>|| null\<close> turns it into \<^verbatim>\<open>null\<close>.
\<close>

definition getCookie :: "string \<Rightarrow> string \<Rightarrow> string option" where
  "getCookie cookie name =
     (let value = ''; '' @ cookie;
          parts = split_str (''; '' @ name @ ''='') value
      in if length parts = 2
         then (case split_str '';'' (last parts) of
                 [] \<Rightarrow> None
               | v # _ \<Rightarrow> (if v = [] then None else Some v))
         else None)"

subsection \<open>JavaScript values, exceptions and results\<close>

text \<open>
  The types of \<^verbatim>\<open>interfaces.ts\<close> are erased at run time: the store keeps whatever
  \<^verbatim>\<open>response.json()\<close> returned. Values are therefore the values of JSON together with
  \<^verbatim>\<open>undefined\<close>. The numbers of such values are modelled on the integers (ids and page counts);
  an object is the list of its own properties.
\<close>

datatype jsval =
    Undefined
  | Null
  | Bool bool
  | Num int
  | Str string
  | Arr "jsval list"
  | Obj "(string \<times> jsval) list"

text \<open>
  What the code can throw: \<open>NetworkError\<close> is the rejection of \<^verbatim>\<open>fetch\<close>,
  \<open>SyntaxError\<close> the rejection of \<^verbatim>\<open>response.json()\<close> on a body that is not JSON,
  \<open>TypeError\<close> a property read on \<^verbatim>\<open>null\<close> or \<^verbatim>\<open>undefined\<close> or a call of something
  that is no function, and \<open>Error v\<close> is \<^verbatim>\<open>new Error(v)\<close>.
\<close>

datatype exn = NetworkError | SyntaxError | TypeError | Error jsval

text \<open>
  The \<^verbatim>\<open>error\<close> field of a structured failure is a value (a string literal or what the
  server sent) or the exception that was caught.
\<close>

datatype errval = Val jsval | Exn exn

text \<open>
  \<open>Success\<close> is \<^verbatim>\<open>{ success: true }\<close>, \<open>SuccessHobby h\<close> is
  \<^verbatim>\<open>{ success: true, hobby: h }\<close> and \<open>Failure e\<close> is \<^verbatim>\<open>{ success: false, error: e }\<close>.
\<close>

datatype action_result = Success | SuccessHobby jsval | Failure errval

fun truthy :: "jsval \<Rightarrow> bool" where
  "truthy Undefined = False"
| "truthy Null = False"
| "truthy (Bool b) = b"
| "truthy (Num n) = (n \<noteq> 0)"
| "truthy (Str s) = (s \<noteq> [])"
| "truthy (Arr xs) = True"
| "truthy (Obj kvs) = True"

text \<open>
  \<^verbatim>\<open>v.k\<close> for the property names this file reads (\<^verbatim>\<open>status\<close>, \<^verbatim>\<open>errors\<close>, \<^verbatim>\<open>hobby\<close>,
  \<^verbatim>\<open>hobbies\<close>, \<^verbatim>\<open>similar_users\<close>, \<^verbatim>\<open>page\<close>, \<^verbatim>\<open>total_pages\<close>, \<^verbatim>\<open>id\<close>): none of them
  is a property of a number, a string, a boolean or an array, nor inherited by an object.
\<close>

fun get_prop :: "jsval \<Rightarrow> string \<Rightarrow> exn + jsval" where
  "get_prop Undefined k = Inl TypeError"
| "get_prop Null k = Inl TypeError"
| "get_prop (Obj kvs) k = Inr (case map_of kvs k of None \<Rightarrow> Undefined | Some v \<Rightarrow> v)"
| "get_prop v k = Inr Undefined"

text \<open>\<^verbatim>\<open>{ ...o, k: v }\<close> on the list of properties: an existing key keeps its place.\<close>

fun set_prop :: "string \<Rightarrow> jsval \<Rightarrow> (string \<times> jsval) list \<Rightarrow> (string \<times> jsval) list" where
  "set_prop k v [] = [(k, v)]"
| "set_prop k v ((k', v') # kvs) =
     (if k' = k then (k, v) # kvs else (k', v') # set_prop k v kvs)"

text \<open>\<^verbatim>\<open>xs.map(f)\<close> with a callback that may throw: the first exception ends the loop.\<close>

fun map_throwing :: "('a \<Rightarrow> exn + 'b) \<Rightarrow> 'a list \<Rightarrow> exn + 'b list" where
  "map_throwing f [] = Inr []"
| "map_throwing f (x # xs) =
     (case f x of
        Inl e \<Rightarrow> Inl e
      | Inr y \<Rightarrow> (case map_throwing f xs of Inl e \<Rightarrow> Inl e | Inr ys \<Rightarrow> Inr (y # ys)))"

subsection \<open>Numbers as text and the query string\<close>

text \<open>
  The numbers of \<^verbatim>\<open>FilterParams\<close> are seen by the code through their truthiness and
  through \<^verbatim>\<open>Number.prototype.toString\<close> only. A safe integer (\<^verbatim>\<open>Number.isSafeInteger\<close>,
  at most \<^verbatim>\<open>2 ** 53 - 1\<close> in magnitude) prints as its decimal numeral and is falsy when it
  is 0 (\<^verbatim>\<open>-0\<close> prints \<^verbatim>\<open>0\<close> and is falsy as well: it is the integer 0 here).
  \<^verbatim>\<open>NaN\<close> prints \<^verbatim>\<open>NaN\<close> and is falsy. Every other number (a fraction, an integer
  beyond the safe range, \<^verbatim>\<open>Infinity\<close>, \<^verbatim>\<open>-Infinity\<close>) is truthy, and \<open>Other s\<close> stands
  for the one that prints as \<open>s\<close>: \<^verbatim>\<open>1.5\<close>, \<^verbatim>\<open>1e+21\<close>, \<^verbatim>\<open>Infinity\<close>.
\<close>

typedef safe_integer = "{i::int. - 9007199254740991 \<le> i \<and> i \<le> 9007199254740991}"
  morphisms int_of safe
  by (rule exI[of _ 0]) simp

datatype number = Integer safe_integer | NaN | Other string

definition digit_char :: "nat \<Rightarrow> char" where
  "digit_char n = ''0123456789ABCDEF'' ! (n mod 16)"

fun nat_toString :: "nat \<Rightarrow> string" where
  "nat_toString n =
     (if n < 10 then [digit_char n] else nat_toString (n div 10) @ [digit_char (n mod 10)])"

declare nat_toString.simps [simp del]

definition int_toString :: "int \<Rightarrow> string" where
  "int_toString i = (if i < 0 then CHR ''-'' # nat_toString (nat (- i)) else nat_toString (nat i))"

definition number_toString :: "number \<Rightarrow> string" where
  "number_toString n =
     (case n of
        Integer i \<Rightarrow> int_toString (int_of i)
      | NaN \<Rightarrow> ''NaN''
      | Other s \<Rightarrow> s)"

definition number_truthy :: "number \<Rightarrow> bool" where
  "number_truthy n =
     (case n of
        Integer i \<Rightarrow> int_of i \<noteq> 0
      | NaN \<Rightarrow> False
      | Other s \<Rightarrow> True)"

text \<open>
  \<^verbatim>\<open>URLSearchParams\<close> is the list of its pairs; its string is the
  \<^verbatim>\<open>application/x-www-form-urlencoded\<close> form: letters, digits and \<^verbatim>\<open>*-._\<close> stay, a
  space becomes \<^verbatim>\<open>+\<close>, any other byte \<^verbatim>\<open>%XX\<close>.
\<close>

definition unreserved :: "char \<Rightarrow> bool" where
  "unreserved c =
     (c \<in> set ''*-._0123456789ABCDEFGHIJKLMNOPQRSTUVWXYZabcdefghijklmnopqrstuvwxyz'')"

definition urlencode_char :: "char \<Rightarrow> string" where
  "urlencode_char c =
     (if c = CHR '' '' then ''+''
      else if unreserved c then [c]
      else [CHR ''%'', digit_char (of_char c div 16), digit_char (of_char c mod 16)])"

definition urlencode :: "string \<Rightarrow> string" where
  "urlencode s = concat (map urlencode_char s)"

type_synonym URLSearchParams = "(string \<times> string) list"

definition append_param :: "string \<Rightarrow> string \<Rightarrow> URLSearchParams \<Rightarrow> URLSearchParams" where
  "append_param k v q = q @ [(k, v)]"

fun join_amp :: "string list \<Rightarrow> string" where
  "join_amp [] = []"
| "join_amp [x] = x"
| "join_amp (x # y # ys) = x @ ''&'' @ join_amp (y # ys)"

definition params_toString :: "URLSearchParams \<Rightarrow> string" where
  "params_toString q = join_amp (map (\<lambda>(k, v). urlencode k @ ''='' @ urlencode v) q)"

subsection \<open>The container state and the environment\<close>

text \<open>
  \<^verbatim>\<open>
  type UserState = {
    userData: User | null;
    similarUsers: SimilarUser[];
    currentPage: number;
    totalPages: number;
    hobbies: Hobby[];
  };
  \<close>
\<close>

record UserState =
  userData :: jsval
  similarUsers :: jsval
  currentPage :: jsval
  totalPages :: jsval
  hobbies :: jsval

definition initial_state :: UserState where
  "initial_state =
     \<lparr>userData = Null, similarUsers = Arr [], currentPage = Num 1, totalPages = Num 1,
      hobbies = Arr []\<rparr>"

text \<open>
  A request is the URL and the options handed to \<^verbatim>\<open>fetch\<close>; \<open>body\<close> holds the value
  that \<^verbatim>\<open>JSON.stringify\<close> serialises. A response is its status and what
  \<^verbatim>\<open>response.json()\<close> yields (\<open>None\<close>: the body is not JSON).
\<close>

record request =
  url :: string
  method' :: string
  credentials :: string
  headers :: "(string \<times> string) list"
  body :: "jsval option"

record response =
  status :: nat
  json :: "jsval option"

definition ok :: "response \<Rightarrow> bool" where
  "ok r = (200 \<le> status r \<and> status r \<le> 299)"

datatype fetch_outcome = Rejected | Responded response

text \<open>
  The server is an external collaborator: any function from its state and a request to
  an outcome and its next state. The environment of an action is the cookie string, the
  server's state and the effects so far, oldest first.
\<close>

type_synonym 'srv network = "'srv \<Rightarrow> request \<Rightarrow> fetch_outcome \<times> 'srv"

datatype event =
    Fetch request
  | ConsoleError string "exn option"
  | LocationAssign string

record 'srv env =
  document_cookie :: string
  server :: 'srv
  events :: "event list"

definition console_error :: "string \<Rightarrow> exn option \<Rightarrow> 'srv env \<Rightarrow> 'srv env" where
  "console_error label e w = w\<lparr>events := events w @ [ConsoleError label e]\<rparr>"

definition location_assign :: "string \<Rightarrow> 'srv env \<Rightarrow> 'srv env" where
  "location_assign path w = w\<lparr>events := events w @ [LocationAssign path]\<rparr>"

definition fetch :: "'srv network \<Rightarrow> request \<Rightarrow> 'srv env \<Rightarrow> (exn + response) \<times> 'srv env" where
  "fetch net rq w =
     (case net (server w) rq of
        (Rejected, s) \<Rightarrow> (Inl NetworkError, w\<lparr>server := s, events := events w @ [Fetch rq]\<rparr>)
      | (Responded r, s) \<Rightarrow> (Inr r, w\<lparr>server := s, events := events w @ [Fetch rq]\<rparr>))"

definition response_json :: "response \<Rightarrow> exn + jsval" where
  "response_json r = (case json r of None \<Rightarrow> Inl SyntaxError | Some v \<Rightarrow> Inr v)"

text \<open>\<^verbatim>\<open>fetch(u, { credentials: 'include' })\<close>\<close>

definition get_request :: "string \<Rightarrow> request" where
  "get_request u =
     \<lparr>url = u, method' = ''GET'', credentials = ''include'', headers = [], body = None\<rparr>"

text \<open>
  \<^verbatim>\<open>fetch(u, { method: m, credentials: 'include', headers: { 'Content-Type':
  'application/json', 'X-CSRFToken': csrfToken }, body: JSON.stringify(b) })\<close>
\<close>

definition json_request :: "string \<Rightarrow> string \<Rightarrow> string \<Rightarrow> jsval \<Rightarrow> request" where
  "json_request m u csrfToken b =
     \<lparr>url = u, method' = m, credentials = ''include'',
      headers = [(''Content-Type'', ''application/json''), (''X-CSRFToken'', csrfToken)],
      body = Some b\<rparr>"

subsection \<open>The actions of the store\<close>

text \<open>
  Every action is \<^verbatim>\<open>try { ... } catch (error) { ... }\<close>. The body of the \<^verbatim>\<open>try\<close> is
  a function \<open>f_try\<close> whose result is \<open>Inl\<close> the exception thrown or \<open>Inr\<close> the value
  returned, with the state and the environment reached at that point; the action \<open>f\<close>
  adds the \<^verbatim>\<open>catch\<close> block.
\<close>

text \<open>
  \<^verbatim>\<open>
  async fetchUserProfile() {
    try {
      const response = await fetch('/api/profile/', { credentials: 'include' });
      if (!response.ok) {
        if (response.status === 403 || response.status === 401) {
          window.location.assign('/login/');
          return;
        }
        throw new Error('Network response was not ok');
      }
      const data = await response.json();
      this.userData = data;
    } catch (error) {
      console.error('Error fetching profile:', error);
      window.location.assign('/login/');
    }
  }
  \<close>
\<close>

definition fetchUserProfile_try ::
  "'srv network \<Rightarrow> UserState \<Rightarrow> 'srv env \<Rightarrow> (exn + unit) \<times> UserState \<times> 'srv env" where
  "fetchUserProfile_try net st w =
     (case fetch net (get_request ''/api/profile/'') w of
        (Inl e, w1) \<Rightarrow> (Inl e, st, w1)
      | (Inr response, w1) \<Rightarrow>
          if \<not> ok response then
            (if status response = 403 \<or> status response = 401
             then (Inr (), st, location_assign ''/login/'' w1)
             else (Inl (Error (Str ''Network response was not ok'')), st, w1))
          else
            (case response_json response of
               Inl e \<Rightarrow> (Inl e, st, w1)
             | Inr data \<Rightarrow> (Inr (), st\<lparr>userData := data\<rparr>, w1)))"

definition fetchUserProfile :: "'srv network \<Rightarrow> UserState \<Rightarrow> 'srv env \<Rightarrow> UserState \<times> 'srv env" where
  "fetchUserProfile net st w =
     (case fetchUserProfile_try net st w of
        (Inr u, st1, w1) \<Rightarrow> (st1, w1)
      | (Inl error, st1, w1) \<Rightarrow>
          (st1, location_assign ''/login/''
                  (console_error ''Error fetching profile:'' (Some error) w1)))"

text \<open>
  \<^verbatim>\<open>
  async fetchHobbies() {
    try {
      const response = await fetch('/api/hobbies/', { credentials: 'include' });
      if (!response.ok) {
        throw new Error('Failed to fetch hobbies');
      }
      const data = await response.json();
      this.hobbies = data.hobbies;
    } catch (error) {
      console.error('Error fetching hobbies:', error);
    }
  }
  \<close>
\<close>

definition fetchHobbies_try ::
  "'srv network \<Rightarrow> UserState \<Rightarrow> 'srv env \<Rightarrow> (exn + unit) \<times> UserState \<times> 'srv env" where
  "fetchHobbies_try net st w =
     (case fetch net (get_request ''/api/hobbies/'') w of
        (Inl e, w1) \<Rightarrow> (Inl e, st, w1)
      | (Inr response, w1) \<Rightarrow>
          if \<not> ok response then (Inl (Error (Str ''Failed to fetch hobbies'')), st, w1)
          else
            (case response_json response of
               Inl e \<Rightarrow> (Inl e, st, w1)
             | Inr data \<Rightarrow>
                 (case get_prop data ''hobbies'' of
                    Inl e \<Rightarrow> (Inl e, st, w1)
                  | Inr hs \<Rightarrow> (Inr (), st\<lparr>hobbies := hs\<rparr>, w1))))"

definition fetchHobbies :: "'srv network \<Rightarrow> UserState \<Rightarrow> 'srv env \<Rightarrow> UserState \<times> 'srv env" where
  "fetchHobbies net st w =
     (case fetchHobbies_try net st w of
        (Inr u, st1, w1) \<Rightarrow> (st1, w1)
      | (Inl error, st1, w1) \<Rightarrow> (st1, console_error ''Error fetching hobbies:'' (Some error) w1))"

text \<open>
  The guard of every mutating action:
  \<^verbatim>\<open>
  if (!csrfToken) {
    console.error('CSRF token not found.');
    return { success: false, error: 'CSRF token not found' };
  }
  \<close>
  and the \<^verbatim>\<open>catch\<close> block they share but for the label:
  \<^verbatim>\<open>
  console.error(label, error);
  return { success: false, error };
  \<close>
\<close>

definition csrf_missing ::
  "UserState \<Rightarrow> 'srv env \<Rightarrow> (exn + action_result) \<times> UserState \<times> 'srv env" where
  "csrf_missing st w =
     (Inr (Failure (Val (Str ''CSRF token not found''))), st,
      console_error ''CSRF token not found.'' None w)"

definition catch_failure ::
  "string \<Rightarrow> (exn + action_result) \<times> UserState \<times> 'srv env \<Rightarrow> action_result \<times> UserState \<times> 'srv env" where
  "catch_failure label r =
     (case r of
        (Inr result, st1, w1) \<Rightarrow> (result, st1, w1)
      | (Inl error, st1, w1) \<Rightarrow> (Failure (Exn error), st1, console_error label (Some error) w1))"

text \<open>
  \<^verbatim>\<open>
  async updateProfile(updatedData: Partial<User>) {
    try {
      const csrfToken = getCookie('csrftoken');
      if (!csrfToken) { ... }
      const formattedData = {
        ...updatedData,
        hobbies: updatedData.hobbies?.map(hobby =>
          typeof hobby === 'number' ? hobby : hobby.id
        )
      };
      const response = await fetch('/api/profile/', { method: 'PUT', ...,
        body: JSON.stringify(formattedData) });
      if (!response.ok) {
        const errorData = await response.json();
        throw new Error(errorData.errors || 'Failed to update profile');
      }
      await this.fetchUserProfile();
      return { success: true };
    } catch (error) {
      console.error('Error updating profile:', error);
      return { success: false, error };
    }
  }
  \<close>
  \<open>updatedData\<close> is the list of the properties of the object passed in.
\<close>

fun hobby_to_id :: "jsval \<Rightarrow> exn + jsval" where
  "hobby_to_id (Num n) = Inr (Num n)"
| "hobby_to_id hobby = get_prop hobby ''id''"

definition format_hobbies :: "jsval \<Rightarrow> exn + jsval" where
  "format_hobbies hs =
     (case hs of
        Undefined \<Rightarrow> Inr Undefined
      | Null \<Rightarrow> Inr Undefined
      | Arr xs \<Rightarrow>
          (case map_throwing hobby_to_id xs of Inl e \<Rightarrow> Inl e | Inr ys \<Rightarrow> Inr (Arr ys))
      | _ \<Rightarrow> Inl TypeError)"

definition updateProfile_try ::
  "'srv network \<Rightarrow> (string \<times> jsval) list \<Rightarrow> UserState \<Rightarrow> 'srv env \<Rightarrow>
     (exn + action_result) \<times> UserState \<times> 'srv env" where
  "updateProfile_try net updatedData st w =
     (case getCookie (document_cookie w) ''csrftoken'' of
        None \<Rightarrow> csrf_missing st w
      | Some csrfToken \<Rightarrow>
          if csrfToken = [] then csrf_missing st w
          else
            (case get_prop (Obj updatedData) ''hobbies'' of
               Inl e \<Rightarrow> (Inl e, st, w)
             | Inr hs \<Rightarrow>
                 (case format_hobbies hs of
                    Inl e \<Rightarrow> (Inl e, st, w)
                  | Inr ids \<Rightarrow>
                      (let formattedData = Obj (set_prop ''hobbies'' ids updatedData) in
                       case fetch net (json_request ''PUT'' ''/api/profile/'' csrfToken formattedData) w of
                         (Inl e, w1) \<Rightarrow> (Inl e, st, w1)
                       | (Inr response, w1) \<Rightarrow>
                           if \<not> ok response then
                             (case response_json response of
                                Inl e \<Rightarrow> (Inl e, st, w1)
                              | Inr errorData \<Rightarrow>
                                  (case get_prop errorData ''errors'' of
                                     Inl e \<Rightarrow> (Inl e, st, w1)
                                   | Inr errors \<Rightarrow>
                                       (Inl (Error (if truthy errors then errors
                                                    else Str ''Failed to update profile'')),
                                        st, w1)))
                           else
                             (case fetchUserProfile net st w1 of
                                (st2, w2) \<Rightarrow> (Inr Success, st2, w2))))))"

definition updateProfile ::
  "'srv network \<Rightarrow> (string \<times> jsval) list \<Rightarrow> UserState \<Rightarrow> 'srv env \<Rightarrow>
     action_result \<times> UserState \<times> 'srv env" where
  "updateProfile net updatedData st w =
     catch_failure ''Error updating profile:'' (updateProfile_try net updatedData st w)"

text \<open>
  \<^verbatim>\<open>
  async addHobby(hobbyName: string) {
    try {
      const csrfToken = getCookie('csrftoken');
      if (!csrfToken) { ... }
      const response = await fetch('/api/hobbies/', { method: 'POST', ...,
        body: JSON.stringify({ name: hobbyName }) });
      if (!response.ok) {
        throw new Error('Failed to add hobby');
      }
      const data = await response.json();
      if (data.status === 'success') {
        await this.fetchHobbies();
        return { success: true, hobby: data.hobby };
      } else {
        return { success: false, error: data.errors };
      }
    } catch (error) {
      console.error('Error adding hobby:', error);
      return { success: false, error };
    }
  }
  \<close>
\<close>

definition addHobby_try ::
  "'srv network \<Rightarrow> string \<Rightarrow> UserState \<Rightarrow> 'srv env \<Rightarrow>
     (exn + action_result) \<times> UserState \<times> 'srv env" where
  "addHobby_try net hobbyName st w =
     (case getCookie (document_cookie w) ''csrftoken'' of
        None \<Rightarrow> csrf_missing st w
      | Some csrfToken \<Rightarrow>
          if csrfToken = [] then csrf_missing st w
          else
            (case fetch net (json_request ''POST'' ''/api/hobbies/'' csrfToken
                               (Obj [(''name'', Str hobbyName)])) w of
               (Inl e, w1) \<Rightarrow> (Inl e, st, w1)
             | (Inr response, w1) \<Rightarrow>
                 if \<not> ok response then (Inl (Error (Str ''Failed to add hobby'')), st, w1)
                 else
                   (case response_json response of
                      Inl e \<Rightarrow> (Inl e, st, w1)
                    | Inr data \<Rightarrow>
                        (case get_prop data ''status'' of
                           Inl e \<Rightarrow> (Inl e, st, w1)
                         | Inr s \<Rightarrow>
                             if s = Str ''success'' then
                               (case fetchHobbies net st w1 of
                                  (st2, w2) \<Rightarrow>
                                    (case get_prop data ''hobby'' of
                                       Inl e \<Rightarrow> (Inl e, st2, w2)
                                     | Inr h \<Rightarrow> (Inr (SuccessHobby h), st2, w2)))
                             else
                               (case get_prop data ''errors'' of
                                  Inl e \<Rightarrow> (Inl e, st, w1)
                                | Inr errors \<Rightarrow> (Inr (Failure (Val errors)), st, w1))))))"

definition addHobby ::
  "'srv network \<Rightarrow> string \<Rightarrow> UserState \<Rightarrow> 'srv env \<Rightarrow> action_result \<times> UserState \<times> 'srv env" where
  "addHobby net hobbyName st w =
     catch_failure ''Error adding hobby:'' (addHobby_try net hobbyName st w)"

text \<open>
  \<^verbatim>\<open>
  async addExistingHobbyToProfile(hobbyId: number) {
    try {
      const csrfToken = getCookie('csrftoken');
      if (!csrfToken) { ... }
      const response = await fetch('/api/profile/add_hobby', { method: 'POST', ...,
        body: JSON.stringify({ hobby_id: hobbyId }) });
      if (!response.ok) {
        throw new Error('Failed to add hobby to profile');
      }
      const data = await response.json();
      if (data.status === 'success') {
        await this.fetchUserProfile();
        return { success: true };
      } else {
        return { success: false, error: data.errors };
      }
    } catch (error) {
      console.error('Error adding hobby to profile:', error);
      return { success: false, error };
    }
  }
  \<close>
\<close>

definition addExistingHobbyToProfile_try ::
  "'srv network \<Rightarrow> int \<Rightarrow> UserState \<Rightarrow> 'srv env \<Rightarrow>
     (exn + action_result) \<times> UserState \<times> 'srv env" where
  "addExistingHobbyToProfile_try net hobbyId st w =
     (case getCookie (document_cookie w) ''csrftoken'' of
        None \<Rightarrow> csrf_missing st w
      | Some csrfToken \<Rightarrow>
          if csrfToken = [] then csrf_missing st w
          else
            (case fetch net (json_request ''POST'' ''/api/profile/add_hobby'' csrfToken
                               (Obj [(''hobby_id'', Num hobbyId)])) w of
               (Inl e, w1) \<Rightarrow> (Inl e, st, w1)
             | (Inr response, w1) \<Rightarrow>
                 if \<not> ok response
                 then (Inl (Error (Str ''Failed to add hobby to profile'')), st, w1)
                 else
                   (case response_json response of
                      Inl e \<Rightarrow> (Inl e, st, w1)
                    | Inr data \<Rightarrow>
                        (case get_prop data ''status'' of
                           Inl e \<Rightarrow> (Inl e, st, w1)
                         | Inr s \<Rightarrow>
                             if s = Str ''success'' then
                               (case fetchUserProfile net st w1 of
                                  (st2, w2) \<Rightarrow> (Inr Success, st2, w2))
                             else
                               (case get_prop data ''errors'' of
                                  Inl e \<Rightarrow> (Inl e, st, w1)
                                | Inr errors \<Rightarrow> (Inr (Failure (Val errors)), st, w1))))))"

definition addExistingHobbyToProfile ::
  "'srv network \<Rightarrow> int \<Rightarrow> UserState \<Rightarrow> 'srv env \<Rightarrow> action_result \<times> UserState \<times> 'srv env" where
  "addExistingHobbyToProfile net hobbyId st w =
     catch_failure ''Error adding hobby to profile:'' (addExistingHobbyToProfile_try net hobbyId st w)"

text \<open>
  \<^verbatim>\<open>
  async deleteHobbyFromProfile(hobbyId: number) {
    try {
      const csrfToken = getCookie('csrftoken');
      if (!csrfToken) { ... }
      const response = await fetch('/api/profile/delete_hobby', { method: 'POST', ...,
        body: JSON.stringify({ hobby_id: hobbyId }) });
      if (!response.ok) {
        throw new Error('Failed to delete hobby from profile');
      }
      const data = await response.json();
      if (data.status === 'success') {
        await this.fetchUserProfile();
        return { success: true };
      } else {
        return { success: false, error: data.errors };
      }
    } catch (error) {
      console.error('Error deleting hobby from profile:', error);
      return { success: false, error };
    }
  }
  \<close>
\<close>

definition deleteHobbyFromProfile_try ::
  "'srv network \<Rightarrow> int \<Rightarrow> UserState \<Rightarrow> 'srv env \<Rightarrow>
     (exn + action_result) \<times> UserState \<times> 'srv env" where
  "deleteHobbyFromProfile_try net hobbyId st w =
     (case getCookie (document_cookie w) ''csrftoken'' of
        None \<Rightarrow> csrf_missing st w
      | Some csrfToken \<Rightarrow>
          if csrfToken = [] then csrf_missing st w
          else
            (case fetch net (json_request ''POST'' ''/api/profile/delete_hobby'' csrfToken
                               (Obj [(''hobby_id'', Num hobbyId)])) w of
               (Inl e, w1) \<Rightarrow> (Inl e, st, w1)
             | (Inr response, w1) \<Rightarrow>
                 if \<not> ok response
                 then (Inl (Error (Str ''Failed to delete hobby from profile'')), st, w1)
                 else
                   (case response_json response of
                      Inl e \<Rightarrow> (Inl e, st, w1)
                    | Inr data \<Rightarrow>
                        (case get_prop data ''status'' of
                           Inl e \<Rightarrow> (Inl e, st, w1)
                         | Inr s \<Rightarrow>
                             if s = Str ''success'' then
                               (case fetchUserProfile net st w1 of
                                  (st2, w2) \<Rightarrow> (Inr Success, st2, w2))
                             else
                               (case get_prop data ''errors'' of
                                  Inl e \<Rightarrow> (Inl e, st, w1)
                                | Inr errors \<Rightarrow> (Inr (Failure (Val errors)), st, w1))))))"

definition deleteHobbyFromProfile ::
  "'srv network \<Rightarrow> int \<Rightarrow> UserState \<Rightarrow> 'srv env \<Rightarrow> action_result \<times> UserState \<times> 'srv env" where
  "deleteHobbyFromProfile net hobbyId st w =
     catch_failure ''Error deleting hobby from profile:'' (deleteHobbyFromProfile_try net hobbyId st w)"

text \<open>
  Modelled from the spec: the declaration of \<^verbatim>\<open>FilterParams\<close>, which the store imports
  from \<^verbatim>\<open>interfaces.ts\<close>, is not among the sources. It is a page number plus optional
  minimum and maximum age bounds; \<^verbatim>\<open>fetchPage\<close> passes \<^verbatim>\<open>number | null\<close> for the
  bounds, and \<open>None\<close> stands for \<^verbatim>\<open>null\<close> and for an absent bound.
\<close>

record FilterParams =
  page :: number
  minAge :: "number option"
  maxAge :: "number option"

text \<open>
  \<^verbatim>\<open>
  async fetchSimilarUsers(params: FilterParams) {
    try {
      const queryParams = new URLSearchParams();
      queryParams.append('page', params.page.toString());
      if (params.minAge) queryParams.append('min_age', params.minAge.toString());
      if (params.maxAge) queryParams.append('max_age', params.maxAge.toString());
      const response = await fetch(`/api/users/similar_with_filters/?${queryParams}`,
        { credentials: 'include' });
      if (!response.ok) {
        throw new Error('Failed to fetch users');
      }
      const data: PageData = await response.json();
      this.similarUsers = data.similar_users;
      this.currentPage = data.page;
      this.totalPages = data.total_pages;
    } catch (error) {
      console.error('Error fetching similar users:', error);
    }
  }
  \<close>
  \<open>append_if_truthy k a q\<close> is \<^verbatim>\<open>if (a) q.append(k, a.toString())\<close>: \<^verbatim>\<open>null\<close>,
  \<^verbatim>\<open>0\<close> and \<^verbatim>\<open>NaN\<close> are falsy.
\<close>

definition append_if_truthy ::
  "string \<Rightarrow> number option \<Rightarrow> URLSearchParams \<Rightarrow> URLSearchParams" where
  "append_if_truthy k a q =
     (case a of
        None \<Rightarrow> q
      | Some n \<Rightarrow> if number_truthy n then append_param k (number_toString n) q else q)"

definition queryParams :: "FilterParams \<Rightarrow> URLSearchParams" where
  "queryParams params =
     append_if_truthy ''max_age'' (maxAge params)
       (append_if_truthy ''min_age'' (minAge params)
          (append_param ''page'' (number_toString (page params)) []))"

definition similar_users_request :: "FilterParams \<Rightarrow> request" where
  "similar_users_request params =
     get_request (''/api/users/similar_with_filters/?'' @ params_toString (queryParams params))"

definition fetchSimilarUsers_try ::
  "'srv network \<Rightarrow> FilterParams \<Rightarrow> UserState \<Rightarrow> 'srv env \<Rightarrow> (exn + unit) \<times> UserState \<times> 'srv env" where
  "fetchSimilarUsers_try net params st w =
     (case fetch net (similar_users_request params) w of
        (Inl e, w1) \<Rightarrow> (Inl e, st, w1)
      | (Inr response, w1) \<Rightarrow>
          if \<not> ok response then (Inl (Error (Str ''Failed to fetch users'')), st, w1)
          else
            (case response_json response of
               Inl e \<Rightarrow> (Inl e, st, w1)
             | Inr data \<Rightarrow>
                 (case get_prop data ''similar_users'' of
                    Inl e \<Rightarrow> (Inl e, st, w1)
                  | Inr us \<Rightarrow>
                      (case get_prop data ''page'' of
                         Inl e \<Rightarrow> (Inl e, st\<lparr>similarUsers := us\<rparr>, w1)
                       | Inr p \<Rightarrow>
                           (case get_prop data ''total_pages'' of
                              Inl e \<Rightarrow> (Inl e, st\<lparr>similarUsers := us, currentPage := p\<rparr>, w1)
                            | Inr t \<Rightarrow>
                                (Inr (),
                                 st\<lparr>similarUsers := us, currentPage := p, totalPages := t\<rparr>,
                                 w1))))))"

definition fetchSimilarUsers ::
  "'srv network \<Rightarrow> FilterParams \<Rightarrow> UserState \<Rightarrow> 'srv env \<Rightarrow> UserState \<times> 'srv env" where
  "fetchSimilarUsers net params st w =
     (case fetchSimilarUsers_try net params st w of
        (Inr u, st1, w1) \<Rightarrow> (st1, w1)
      | (Inl error, st1, w1) \<Rightarrow>
          (st1, console_error ''Error fetching similar users:'' (Some error) w1))"

text \<open>
  \<^verbatim>\<open>
  async fetchPage(page: number, minAge: number | null, maxAge: number | null) {
    await this.fetchSimilarUsers({ page, minAge, maxAge });
  }
  \<close>
\<close>

definition fetchPage ::
  "'srv network \<Rightarrow> number \<Rightarrow> number option \<Rightarrow> number option \<Rightarrow> UserState \<Rightarrow> 'srv env \<Rightarrow>
     UserState \<times> 'srv env" where
  "fetchPage net p lo hi st w =
     fetchSimilarUsers net \<lparr>page = p, minAge = lo, maxAge = hi\<rparr> st w"

text \<open>
  \<^verbatim>\<open>
  async sendFriendRequest(username: string) {
    try {
      const csrfToken = getCookie('csrftoken');
      if (!csrfToken) { ... }
      const response = await fetch('/api/send_request/', { method: 'POST', ...,
        body: JSON.stringify({ username }) });
      if (!response.ok) {
        throw new Error('Failed to send friend request');
      }
      return { success: true };
    } catch (error) {
      console.error('Error sending friend request:', error);
      return { success: false, error };
    }
  }
  \<close>
\<close>

definition sendFriendRequest_try ::
  "'srv network \<Rightarrow> string \<Rightarrow> UserState \<Rightarrow> 'srv env \<Rightarrow>
     (exn + action_result) \<times> UserState \<times> 'srv env" where
  "sendFriendRequest_try net username st w =
     (case getCookie (document_cookie w) ''csrftoken'' of
        None \<Rightarrow> csrf_missing st w
      | Some csrfToken \<Rightarrow>
          if csrfToken = [] then csrf_missing st w
          else
            (case fetch net (json_request ''POST'' ''/api/send_request/'' csrfToken
                               (Obj [(''username'', Str username)])) w of
               (Inl e, w1) \<Rightarrow> (Inl e, st, w1)
             | (Inr response, w1) \<Rightarrow>
                 if \<not> ok response then (Inl (Error (Str ''Failed to send friend request'')), st, w1)
                 else (Inr Success, st, w1)))"

definition sendFriendRequest ::
  "'srv network \<Rightarrow> string \<Rightarrow> UserState \<Rightarrow> 'srv env \<Rightarrow> action_result \<times> UserState \<times> 'srv env" where
  "sendFriendRequest net username st w =
     catch_failure ''Error sending friend request:'' (sendFriendRequest_try net username st w)"

section \<open>Notions used to state the properties\<close>

subsection \<open>Occurrences of a delimiter\<close>

text \<open>
  \<open>first_occurrence sep s\<close> cuts \<open>s\<close> at the leftmost occurrence of \<open>sep\<close> into the
  text before it and the text behind it. \<open>occurrences sep s\<close> counts the occurrences of
  \<open>sep\<close> met when \<open>s\<close> is read from the left and the reading goes on behind each
  occurrence found, as \<^verbatim>\<open>split\<close> reads.
\<close>

fun first_occurrence :: "string \<Rightarrow> string \<Rightarrow> (string \<times> string) option" where
  "first_occurrence sep [] = (if sep = [] then Some ([], []) else None)"
| "first_occurrence sep (c # cs) =
     (if prefix sep (c # cs) then Some ([], drop (length sep) (c # cs))
      else map_option (\<lambda>(pre, post). (c # pre, post)) (first_occurrence sep cs))"

function occurrences :: "string \<Rightarrow> string \<Rightarrow> nat" where
  "occurrences sep [] = 0"
| "occurrences sep (c # cs) =
     (if sep \<noteq> [] \<and> prefix sep (c # cs)
      then Suc (occurrences sep (drop (length sep) (c # cs)))
      else occurrences sep cs)"
  by pat_completeness auto
termination
  by (relation "measure (\<lambda>(sep, s). length s)") auto

text \<open>
  The text behind the leftmost occurrence of \<open>sep\<close>, up to the next \<^verbatim>\<open>;\<close>: the value
  of the cookie when \<open>sep\<close> is the delimiter \<^verbatim>\<open>"; name="\<close>.
\<close>

definition value_behind :: "string \<Rightarrow> string \<Rightarrow> string" where
  "value_behind sep s =
     (case first_occurrence sep s of
        None \<Rightarrow> []
      | Some (pre, post) \<Rightarrow> takeWhile (\<lambda>c. c \<noteq> CHR '';'') post)"

subsection \<open>The cookies of a cookie string\<close>

text \<open>
  \<^verbatim>\<open>document.cookie\<close> lists the cookies of the store as \<^verbatim>\<open>name=value\<close> pairs
  separated by \<^verbatim>\<open>"; "\<close>; a pair without \<^verbatim>\<open>=\<close> is the value of a cookie with the
  empty name.
\<close>

definition cookie_name :: "string \<Rightarrow> string" where
  "cookie_name pair =
     (if CHR ''='' \<in> set pair then takeWhile (\<lambda>c. c \<noteq> CHR ''='') pair else [])"

definition cookie_names :: "string \<Rightarrow> string list" where
  "cookie_names cookie = map cookie_name (split_str ''; '' cookie)"

subsection \<open>Outcomes of a request\<close>

text \<open>
  A read fails on a rejected \<^verbatim>\<open>fetch\<close> (transport error), on a status outside 2xx and
  on a body that is not JSON; \<open>thrown_by message out\<close> is the exception that reaches the
  \<^verbatim>\<open>catch\<close> block then, \<open>message\<close> being the text of the action's own \<^verbatim>\<open>Error\<close>.
\<close>

definition failed_outcome :: "fetch_outcome \<Rightarrow> bool" where
  "failed_outcome out =
     (case out of Rejected \<Rightarrow> True | Responded r \<Rightarrow> \<not> ok r \<or> json r = None)"

definition thrown_by :: "string \<Rightarrow> fetch_outcome \<Rightarrow> exn" where
  "thrown_by message out =
     (case out of
        Rejected \<Rightarrow> NetworkError
      | Responded r \<Rightarrow> if ok r then SyntaxError else Error (Str message))"

subsection \<open>The query of a URL\<close>



subsection \<open>Requests issued\<close>

text \<open>The requests among the effects of an environment, oldest first.\<close>

fun requests :: "event list \<Rightarrow> request list" where
  "requests [] = []"
| "requests (Fetch rq # es) = rq # requests es"
| "requests (e # es) = requests es"

subsection \<open>Hobby references\<close>

text \<open>
  An element of the \<^verbatim>\<open>hobbies\<close> list of an update is a raw numeric id or a \<^verbatim>\<open>Hobby\<close>
  object, whose \<^verbatim>\<open>id\<close> is a number; \<open>hobby_id\<close> puts the \<^verbatim>\<open>id\<close> field in the
  place of an object.
\<close>

fun is_num :: "jsval \<Rightarrow> bool" where
  "is_num (Num n) = True"
| "is_num v = False"

fun is_hobby_ref :: "jsval \<Rightarrow> bool" where
  "is_hobby_ref (Num n) = True"
| "is_hobby_ref (Obj kvs) = (case map_of kvs ''id'' of Some v \<Rightarrow> is_num v | None \<Rightarrow> False)"
| "is_hobby_ref v = False"

fun hobby_id :: "jsval \<Rightarrow> jsval" where
  "hobby_id (Obj kvs) = (case map_of kvs ''id'' of Some v \<Rightarrow> v | None \<Rightarrow> Undefined)"
| "hobby_id v = v"

subsection \<open>The profile after a refetch\<close>

text \<open>
  The state that reading \<^verbatim>\<open>GET /api/profile/\<close> leaves, given the outcome of the
  request: the document of a 2xx answer with a JSON body in \<open>userData\<close>, and the old
  state in every other case.
\<close>

definition profile_after_refetch :: "fetch_outcome \<Rightarrow> UserState \<Rightarrow> UserState" where
  "profile_after_refetch out st =
     (case out of
        Rejected \<Rightarrow> st
      | Responded r \<Rightarrow>
          if ok r then (case json r of None \<Rightarrow> st | Some doc \<Rightarrow> st\<lparr>userData := doc\<rparr>) else st)"

text \<open>
  A server that accepts every update and fails the first read of the profile with status
  503; its state counts the reads.
\<close>

definition flaky_server :: "nat network" where
  "flaky_server n rq =
     (if method' rq = ''GET''
      then (if n = 0 then Responded \<lparr>status = 503, json = None\<rparr>
            else Responded \<lparr>status = 200, json = Some (Obj [(''username'', Str ''ada'')])\<rparr>,
            Suc n)
      else (Responded \<lparr>status = 200, json = Some (Obj [])\<rparr>, n))"

section \<open>Properties\<close>

subsection \<open>The network\<close>

text \<open>
  What one \<^verbatim>\<open>fetch\<close> does to the environment: the server moves on and the request is
  logged, whatever the outcome.
\<close>

lemma fetch_Responded:
  "net (server w) rq = (Responded r, s) \<Longrightarrow>
   fetch net rq w = (Inr r, w\<lparr>server := s, events := events w @ [Fetch rq]\<rparr>)"
  by (simp add: fetch_def)

lemma fetch_Rejected:
  "net (server w) rq = (Rejected, s) \<Longrightarrow>
   fetch net rq w = (Inl NetworkError, w\<lparr>server := s, events := events w @ [Fetch rq]\<rparr>)"
  by (simp add: fetch_def)

lemma fetch_env:
  "snd (fetch net rq w) =
     w\<lparr>server := snd (net (server w) rq), events := events w @ [Fetch rq]\<rparr>"
  by (cases "net (server w) rq"; cases "fst (net (server w) rq)") (auto simp: fetch_def)

lemma requests_append: "requests (xs @ ys) = requests xs @ requests ys"
  by (induction xs rule: requests.induct) auto

lemma fetch_requests: "requests (events (snd (fetch net rq w))) = requests (events w) @ [rq]"
  by (simp add: fetch_env requests_append)

subsection \<open>Splitting at a delimiter\<close>

text \<open>
  \<open>split_str\<close> in terms of the leftmost occurrence of the separator: no occurrence,
  one part; otherwise the text before the occurrence and the parts of the text behind it.
\<close>

lemma split_str_nonempty: "sep \<noteq> [] \<Longrightarrow> split_str sep s \<noteq> []"
  by (induction sep s rule: split_str.induct) (auto split: list.splits)

lemma first_occurrence_None_split:
  "sep \<noteq> [] \<Longrightarrow> first_occurrence sep s = None \<Longrightarrow> split_str sep s = [s]"
  by (induction s) (auto split: list.splits if_splits)

lemma first_occurrence_Some_split:
  "sep \<noteq> [] \<Longrightarrow> first_occurrence sep s = Some (pre, post) \<Longrightarrow>
   split_str sep s = pre # split_str sep post"
  by (induction s arbitrary: pre) (auto split: list.splits if_splits)

lemma first_occurrence_None_iff: "first_occurrence sep s = None \<longleftrightarrow> \<not> sublist sep s"
  by (induction s) (auto simp: sublist_Cons_right)

lemma first_occurrence_SomeD:
  "first_occurrence sep s = Some (pre, post) \<Longrightarrow> s = pre @ sep @ post"
  by (induction s arbitrary: pre) (auto split: if_splits simp: prefix_def)

lemma split_semicolon: "\<exists>rest. split_str '';'' t = takeWhile (\<lambda>c. c \<noteq> CHR '';'') t # rest"
  by (induction t) (auto split: list.splits)

text \<open>\<open>first_occurrence\<close> finds an occurrence, and no occurrence starts before it.\<close>

lemma first_occurrence_Some_iff:
  "first_occurrence sep s = Some (pre, post) \<longleftrightarrow>
     s = pre @ sep @ post \<and> (\<forall>pre' post'. s = pre' @ sep @ post' \<longrightarrow> length pre \<le> length pre')"
proof (induction s arbitrary: pre)
  case Nil
  then show ?case by auto
next
  case (Cons c cs)
  show ?case
  proof (cases "prefix sep (c # cs)")
    case True
    then obtain r where r: "c # cs = sep @ r" by (auto simp: prefix_def)
    then have d: "drop (length sep) (c # cs) = r" by (metis append_eq_conv_conj)
    have fo: "first_occurrence sep (c # cs) = Some ([], r)" using True d by simp
    show ?thesis
    proof
      assume "first_occurrence sep (c # cs) = Some (pre, post)"
      with fo have "pre = []" "post = r" by simp_all
      then show "c # cs = pre @ sep @ post \<and> (\<forall>pre' post'. c # cs = pre' @ sep @ post' \<longrightarrow> length pre \<le> length pre')"
        using r by simp
    next
      assume a: "c # cs = pre @ sep @ post \<and> (\<forall>pre' post'. c # cs = pre' @ sep @ post' \<longrightarrow> length pre \<le> length pre')"
      have "c # cs = [] @ sep @ r" using r by simp
      with a have "length pre \<le> length ([]::string)" by blast
      then have "pre = []" by simp
      with a r have "post = r" by simp
      with fo \<open>pre = []\<close> show "first_occurrence sep (c # cs) = Some (pre, post)" by simp
    qed
  next
    case False
    have nopre: "\<And>post'. c # cs \<noteq> sep @ post'" using False by (auto simp: prefix_def)
    show ?thesis
    proof
      assume "first_occurrence sep (c # cs) = Some (pre, post)"
      then obtain p where p: "first_occurrence sep cs = Some (p, post)" "pre = c # p"
        using False by (auto split: if_splits)
      from p(1) Cons.IH have cs: "cs = p @ sep @ post"
        and least: "\<forall>pre' post'. cs = pre' @ sep @ post' \<longrightarrow> length p \<le> length pre'" by auto
      have "\<forall>pre' post'. c # cs = pre' @ sep @ post' \<longrightarrow> length pre \<le> length pre'"
      proof (intro allI impI)
        fix pre' post' assume e: "c # cs = pre' @ sep @ post'"
        with nopre obtain q where q: "pre' = c # q" by (cases pre') auto
        with e have "cs = q @ sep @ post'" by simp
        with least have "length p \<le> length q" by blast
        then show "length pre \<le> length pre'" using p(2) q by simp
      qed
      then show "c # cs = pre @ sep @ post \<and> (\<forall>pre' post'. c # cs = pre' @ sep @ post' \<longrightarrow> length pre \<le> length pre')"
        using cs p(2) by simp
    next
      assume a: "c # cs = pre @ sep @ post \<and> (\<forall>pre' post'. c # cs = pre' @ sep @ post' \<longrightarrow> length pre \<le> length pre')"
      with nopre obtain p where p: "pre = c # p" by (cases pre) auto
      with a have cs: "cs = p @ sep @ post" by simp
      have "\<forall>pre' post'. cs = pre' @ sep @ post' \<longrightarrow> length p \<le> length pre'"
      proof (intro allI impI)
        fix pre' post' assume "cs = pre' @ sep @ post'"
        then have "c # cs = (c # pre') @ sep @ post'" by simp
        with a have "length pre \<le> length (c # pre')" by blast
        then show "length p \<le> length pre'" using p by simp
      qed
      with cs Cons.IH have "first_occurrence sep cs = Some (p, post)" by blast
      then show "first_occurrence sep (c # cs) = Some (pre, post)" using False p by simp
    qed
  qed
qed

text \<open>
  \<^verbatim>\<open>parts.length === 2\<close> says that the delimiter occurs and does not occur again behind
  its leftmost occurrence; \<^verbatim>\<open>parts.pop()\<close> is the text behind it.
\<close>

lemma getCookie_first_occurrence:
  "getCookie cookie name =
     (case first_occurrence (''; '' @ name @ ''='') (''; '' @ cookie) of
        None \<Rightarrow> None
      | Some (pre, post) \<Rightarrow>
          if sublist (''; '' @ name @ ''='') post \<or> takeWhile (\<lambda>c. c \<noteq> CHR '';'') post = []
          then None
          else Some (takeWhile (\<lambda>c. c \<noteq> CHR '';'') post))"
proof -
  define D where "D = ''; '' @ name @ ''=''"
  define S where "S = ''; '' @ cookie"
  have D: "D \<noteq> []" by (simp add: D_def)
  show ?thesis
  proof (cases "first_occurrence D S")
    case None
    then have "split_str D S = [S]" using D by (rule first_occurrence_None_split[rotated])
    then show ?thesis using None unfolding getCookie_def Let_def D_def S_def by simp
  next
    case (Some pp)
    obtain pre post where pp: "pp = (pre, post)" by (cases pp)
    have sp: "split_str D S = pre # split_str D post"
      using first_occurrence_Some_split[OF D] Some pp by simp
    show ?thesis
    proof (cases "first_occurrence D post")
      case None
      then have p1: "split_str D post = [post]" using D by (rule first_occurrence_None_split[rotated])
      have ns: "\<not> sublist D post" using None by (simp add: first_occurrence_None_iff)
      obtain rest where r: "split_str '';'' post = takeWhile (\<lambda>c. c \<noteq> CHR '';'') post # rest"
        using split_semicolon by blast
      show ?thesis using Some pp sp p1 ns r
        unfolding getCookie_def Let_def D_def[symmetric] S_def[symmetric] by simp
    next
      case (Some qq)
      obtain q1 q2 where qq: "qq = (q1, q2)" by (cases qq)
      have "split_str D post = q1 # split_str D q2"
        using first_occurrence_Some_split[OF D] Some qq by simp
      moreover have "split_str D q2 \<noteq> []" using D by (rule split_str_nonempty)
      ultimately have len: "length (split_str D S) \<noteq> 2" using sp by (cases "split_str D q2") auto
      have "sublist D post" using Some first_occurrence_None_iff[of D post] by auto
      then show ?thesis using \<open>first_occurrence D S = Some pp\<close> pp len
        unfolding getCookie_def Let_def D_def[symmetric] S_def[symmetric] by simp
    qed
  qed
qed

subsection \<open>A cookie that is not in the cookie string\<close>

text \<open>
  Every occurrence of \<^verbatim>\<open>"; "\<close> is a cut of \<open>split_str\<close>, because \<^verbatim>\<open>"; "\<close> cannot overlap
  itself. So where the delimiter \<^verbatim>\<open>"; name="\<close> occurs in \<^verbatim>\<open>"; " + document.cookie\<close>, a
  pair of the cookie string starts with \<^verbatim>\<open>name=\<close>, and a name without \<^verbatim>\<open>;\<close> and \<^verbatim>\<open>=\<close>
  is then the name of that pair.
\<close>

lemma split_cookie_append:
  "split_str ''; '' (pre @ ''; '' @ rest) = split_str ''; '' pre @ split_str ''; '' rest"
proof (induction pre rule: length_induct)
  case (1 pre)
  show ?case
  proof (cases pre)
    case Nil
    then show ?thesis by simp
  next
    case (Cons c p)
    note pre = Cons
    show ?thesis
    proof (cases "c = CHR '';'' \<and> (\<exists>p'. p = CHR '' '' # p')")
      case True
      then obtain p' where p': "p = CHR '' '' # p'" by blast
      have "length p' < length pre" using pre p' by simp
      with 1 have "split_str ''; '' (p' @ ''; '' @ rest) = split_str ''; '' p' @ split_str ''; '' rest"
        by blast
      then show ?thesis using pre p' True by simp
    next
      case False
      have np1: "\<not> prefix ''; '' (c # p)" using False by (cases p) auto
      have np2: "\<not> prefix ''; '' (c # p @ ''; '' @ rest)" using False by (cases p) auto
      have "length p < length pre" using pre by simp
      with 1 have ih: "split_str ''; '' (p @ ''; '' @ rest) = split_str ''; '' p @ split_str ''; '' rest"
        by blast
      obtain q qs where q: "split_str ''; '' p = q # qs"
        using split_str_nonempty[of "''; ''" p] by (cases "split_str ''; '' p") auto
      show ?thesis using pre np1 np2 ih q by auto
    qed
  qed
qed

lemma split_cookie_head:
  "CHR '';'' \<notin> set u \<Longrightarrow> \<exists>q qs. split_str ''; '' (u @ t) = (u @ q) # qs"
proof (induction u)
  case Nil
  then show ?case using split_str_nonempty[of "''; ''" t] by (cases "split_str ''; '' t") auto
next
  case (Cons a u)
  then obtain q qs where "split_str ''; '' (u @ t) = (u @ q) # qs" by auto
  moreover have "\<not> prefix ''; '' (a # u @ t)" using Cons.prems by auto
  ultimately show ?case by simp
qed

lemma delimiter_gives_cookie_name:
  assumes semi: "CHR '';'' \<notin> set name" and eq: "CHR ''='' \<notin> set name"
    and sub: "sublist (''; '' @ name @ ''='') (''; '' @ cookie)"
  shows "name \<in> set (cookie_names cookie)"
proof -
  from sub obtain pre post where e: "''; '' @ cookie = pre @ (''; '' @ name @ ''='') @ post"
    by (auto simp: sublist_def)
  then have e': "''; '' @ cookie = pre @ ''; '' @ ((name @ ''='') @ post)" by simp
  have "split_str ''; '' (''; '' @ cookie) = [] # split_str ''; '' cookie" by simp
  moreover have "split_str ''; '' (''; '' @ cookie) =
      split_str ''; '' pre @ split_str ''; '' ((name @ ''='') @ post)"
    unfolding e' by (rule split_cookie_append)
  moreover obtain q qs where q: "split_str ''; '' ((name @ ''='') @ post) = ((name @ ''='') @ q) # qs"
    using split_cookie_head[of "name @ ''=''" post] semi by auto
  ultimately have "(name @ ''='') @ q \<in> set ([] # split_str ''; '' cookie)"
    by (metis in_set_conv_decomp)
  then have "(name @ ''='') @ q \<in> set (split_str ''; '' cookie)" by auto
  moreover have "cookie_name ((name @ ''='') @ q) = name"
    using eq by (auto simp: cookie_name_def takeWhile_tail)
  ultimately show ?thesis unfolding cookie_names_def by force
qed

lemma getCookie_absent:
  assumes "CHR '';'' \<notin> set name" "CHR ''='' \<notin> set name" "name \<notin> set (cookie_names cookie)"
  shows "getCookie cookie name = None"
proof -
  have "\<not> sublist (''; '' @ name @ ''='') (''; '' @ cookie)"
    using assms delimiter_gives_cookie_name by blast
  then have "first_occurrence (''; '' @ name @ ''='') (''; '' @ cookie) = None"
    using first_occurrence_None_iff by blast
  then show ?thesis by (subst getCookie_first_occurrence) (simp only: option.case)
qed

lemma csrftoken_absent:
  "''csrftoken'' \<notin> set (cookie_names cookie) \<Longrightarrow> getCookie cookie ''csrftoken'' = None"
  by (rule getCookie_absent) simp_all

text \<open>\<^verbatim>\<open>|| null\<close>: a token that is returned is not empty.\<close>

lemma getCookie_nonempty: "getCookie cookie name = Some v \<Longrightarrow> v \<noteq> []"
  by (auto simp: getCookie_def Let_def split: if_splits list.splits)

subsection \<open>What \<^verbatim>\<open>getCookie\<close> returns\<close>

text \<open>
  The occurrences counted are the matches \<^verbatim>\<open>split\<close> finds: there is one part more than
  there are occurrences. The delimiter occurs exactly once when it occurs and does not
  occur again behind its leftmost occurrence.
\<close>

lemma occurrences_split: "sep \<noteq> [] \<Longrightarrow> length (split_str sep s) = Suc (occurrences sep s)"
  by (induction sep s rule: split_str.induct) (auto split: list.splits)

lemma occurrences_zero: "sep \<noteq> [] \<Longrightarrow> (occurrences sep s = 0) = (\<not> sublist sep s)"
  by (induction sep s rule: occurrences.induct) (auto simp: sublist_Cons_right)

lemma occurrences_first:
  "sep \<noteq> [] \<Longrightarrow> first_occurrence sep s = Some (pre, post) \<Longrightarrow>
   occurrences sep s = Suc (occurrences sep post)"
  by (induction s arbitrary: pre) (auto split: if_splits)

lemma occurrences_once:
  assumes "sep \<noteq> []"
  shows "(occurrences sep s = 1) =
         (\<exists>pre post. first_occurrence sep s = Some (pre, post) \<and> \<not> sublist sep post)"
proof (cases "first_occurrence sep s")
  case None
  then have "\<not> sublist sep s" by (simp add: first_occurrence_None_iff)
  then have "occurrences sep s = 0" using occurrences_zero[OF assms, of s] by simp
  with None show ?thesis by simp
next
  case (Some pp)
  obtain pre post where pp: "pp = (pre, post)" by (cases pp)
  have "occurrences sep s = Suc (occurrences sep post)"
    using Some pp assms by (simp add: occurrences_first)
  then have "(occurrences sep s = 1) = (occurrences sep post = 0)" by simp
  also have "\<dots> = (\<not> sublist sep post)" using occurrences_zero[OF assms, of post] by simp
  finally show ?thesis using Some pp by simp
qed

text \<open>
  C9. For every cookie string and name, \<^verbatim>\<open>getCookie(name)\<close> returns a value other than
  \<^verbatim>\<open>null\<close> only when the delimiter \<^verbatim>\<open>"; name="\<close> occurs exactly once in
  \<^verbatim>\<open>"; " + document.cookie\<close> and the value behind it, up to the next \<^verbatim>\<open>;\<close>, is not
  empty, and it is that value then; in every other case (the delimiter does not occur,
  it occurs more than once, or the value is empty) it returns \<^verbatim>\<open>null\<close>.
\<close>

theorem getCookie_value:
  "getCookie cookie name =
     (if occurrences (''; '' @ name @ ''='') (''; '' @ cookie) = 1 \<and>
         value_behind (''; '' @ name @ ''='') (''; '' @ cookie) \<noteq> []
      then Some (value_behind (''; '' @ name @ ''='') (''; '' @ cookie))
      else None)"
proof -
  define D where "D = ''; '' @ name @ ''=''"
  define S where "S = ''; '' @ cookie"
  have D: "D \<noteq> []" by (simp add: D_def)
  have general: "getCookie cookie name =
     (case first_occurrence D S of
        None \<Rightarrow> None
      | Some (pre, post) \<Rightarrow>
          if sublist D post \<or> value_behind D S = [] then None else Some (value_behind D S))"
    unfolding D_def S_def
    by (subst getCookie_first_occurrence) (simp add: value_behind_def split: option.splits)
  have "getCookie cookie name =
        (if occurrences D S = 1 \<and> value_behind D S \<noteq> [] then Some (value_behind D S) else None)"
    unfolding general occurrences_once[OF D] by (auto split: option.splits)
  then show ?thesis unfolding D_def S_def .
qed

text \<open>One occurrence with a value; two occurrences; one occurrence with an empty value.\<close>

theorem getCookie_value_witness:
  "getCookie ''sessionid=xyz; csrftoken=abc123; theme=dark'' ''csrftoken'' = Some ''abc123'' \<and>
   getCookie ''csrftoken=abc; csrftoken=def'' ''csrftoken'' = None \<and>
   getCookie ''sessionid=xyz; csrftoken='' ''csrftoken'' = None"
proof -
  have 1: "occurrences ''; csrftoken='' ''; sessionid=xyz; csrftoken=abc123; theme=dark'' = 1"
    "value_behind ''; csrftoken='' ''; sessionid=xyz; csrftoken=abc123; theme=dark'' = ''abc123''"
    by (simp_all add: value_behind_def)
  have 2: "occurrences ''; csrftoken='' ''; csrftoken=abc; csrftoken=def'' = 2"
    by simp
  have 3: "value_behind ''; csrftoken='' ''; sessionid=xyz; csrftoken='' = []"
    by (simp add: value_behind_def)
  show ?thesis
    using getCookie_value[of "''sessionid=xyz; csrftoken=abc123; theme=dark''" "''csrftoken''"]
      getCookie_value[of "''csrftoken=abc; csrftoken=def''" "''csrftoken''"]
      getCookie_value[of "''sessionid=xyz; csrftoken=''" "''csrftoken''"]
      1 2 3
    by simp
qed

subsection \<open>Mutating actions without a CSRF token\<close>

text \<open>
  C2. When the cookie string holds no cookie named \<^verbatim>\<open>csrftoken\<close>, each of
  \<^verbatim>\<open>updateProfile\<close>, \<^verbatim>\<open>addHobby\<close>, \<^verbatim>\<open>addExistingHobbyToProfile\<close>,
  \<^verbatim>\<open>deleteHobbyFromProfile\<close> and \<^verbatim>\<open>sendFriendRequest\<close> returns
  \<^verbatim>\<open>{ success: false, error: 'CSRF token not found' }\<close>, leaves the container state as
  it was and performs no network call: the server's state is untouched and the only
  effect added is the line written by \<^verbatim>\<open>console.error\<close>.
\<close>

theorem csrf_absent_short_circuits:
  assumes "''csrftoken'' \<notin> set (cookie_names (document_cookie w))"
  shows "updateProfile net updatedData st w =
           (Failure (Val (Str ''CSRF token not found'')), st,
            w\<lparr>events := events w @ [ConsoleError ''CSRF token not found.'' None]\<rparr>) \<and>
         addHobby net hobbyName st w =
           (Failure (Val (Str ''CSRF token not found'')), st,
            w\<lparr>events := events w @ [ConsoleError ''CSRF token not found.'' None]\<rparr>) \<and>
         addExistingHobbyToProfile net hobbyId st w =
           (Failure (Val (Str ''CSRF token not found'')), st,
            w\<lparr>events := events w @ [ConsoleError ''CSRF token not found.'' None]\<rparr>) \<and>
         deleteHobbyFromProfile net hobbyId st w =
           (Failure (Val (Str ''CSRF token not found'')), st,
            w\<lparr>events := events w @ [ConsoleError ''CSRF token not found.'' None]\<rparr>) \<and>
         sendFriendRequest net username st w =
           (Failure (Val (Str ''CSRF token not found'')), st,
            w\<lparr>events := events w @ [ConsoleError ''CSRF token not found.'' None]\<rparr>)"
proof -
  have none: "getCookie (document_cookie w) ''csrftoken'' = None"
    using assms by (rule csrftoken_absent)
  have miss: "catch_failure label (csrf_missing st w) =
      (Failure (Val (Str ''CSRF token not found'')), st,
       w\<lparr>events := events w @ [ConsoleError ''CSRF token not found.'' None]\<rparr>)" for label
    by (simp add: catch_failure_def csrf_missing_def console_error_def)
  have "updateProfile_try net updatedData st w = csrf_missing st w"
    by (simp add: updateProfile_try_def none)
  moreover have "addHobby_try net hobbyName st w = csrf_missing st w"
    by (simp add: addHobby_try_def none)
  moreover have "addExistingHobbyToProfile_try net hobbyId st w = csrf_missing st w"
    by (simp add: addExistingHobbyToProfile_try_def none)
  moreover have "deleteHobbyFromProfile_try net hobbyId st w = csrf_missing st w"
    by (simp add: deleteHobbyFromProfile_try_def none)
  moreover have "sendFriendRequest_try net username st w = csrf_missing st w"
    by (simp add: sendFriendRequest_try_def none)
  ultimately show ?thesis
    by (simp only: updateProfile_def addHobby_def addExistingHobbyToProfile_def
        deleteHobbyFromProfile_def sendFriendRequest_def miss)
qed

theorem csrf_absent_short_circuits_witness:
  "''csrftoken'' \<notin> set (cookie_names ''sessionid=xyz; theme=dark'') \<and>
   updateProfile (\<lambda>s rq. (Rejected, Suc s)) [(''email'', Str ''ada@example.org'')] initial_state
     \<lparr>document_cookie = ''sessionid=xyz; theme=dark'', server = 0, events = []\<rparr> =
     (Failure (Val (Str ''CSRF token not found'')), initial_state,
      \<lparr>document_cookie = ''sessionid=xyz; theme=dark'', server = 0,
       events = [ConsoleError ''CSRF token not found.'' None]\<rparr>) \<and>
   sendFriendRequest (\<lambda>s rq. (Rejected, Suc s)) ''grace'' initial_state
     \<lparr>document_cookie = ''sessionid=xyz; theme=dark'', server = 0, events = []\<rparr> =
     (Failure (Val (Str ''CSRF token not found'')), initial_state,
      \<lparr>document_cookie = ''sessionid=xyz; theme=dark'', server = 0,
       events = [ConsoleError ''CSRF token not found.'' None]\<rparr>)"
proof -
  have absent: "''csrftoken'' \<notin> set (cookie_names ''sessionid=xyz; theme=dark'')"
    by (simp add: cookie_names_def cookie_name_def)
  show ?thesis
    using absent
      csrf_absent_short_circuits
        [of "\<lparr>document_cookie = ''sessionid=xyz; theme=dark'', server = 0, events = []\<rparr>"
            "\<lambda>s rq. (Rejected, Suc s)" "[(''email'', Str ''ada@example.org'')]" initial_state
            "[]" 0 "''grace''"]
    by simp
qed

subsection \<open>Reading the profile without authorisation\<close>

text \<open>
  C3. When the server answers \<^verbatim>\<open>GET /api/profile/\<close> with status 401 or 403,
  \<^verbatim>\<open>fetchUserProfile\<close> navigates to \<^verbatim>\<open>/login/\<close> and leaves every field of the container
  state unchanged; nothing else happens.
\<close>

theorem fetchUserProfile_unauthorised:
  assumes "net (server w) (get_request ''/api/profile/'') = (Responded r, s)"
    and "status r = 401 \<or> status r = 403"
  shows "fetchUserProfile net st w =
           (st, w\<lparr>server := s,
                   events := events w @ [Fetch (get_request ''/api/profile/''),
                                         LocationAssign ''/login/'']\<rparr>)"
  using assms
  by (auto simp: fetchUserProfile_def fetchUserProfile_try_def fetch_Responded ok_def
      location_assign_def)

theorem fetchUserProfile_unauthorised_witness:
  "fetchUserProfile (\<lambda>s rq. (Responded \<lparr>status = 401, json = None\<rparr>, Suc s)) initial_state
     \<lparr>document_cookie = [], server = 0, events = []\<rparr> =
   (initial_state,
    \<lparr>document_cookie = [], server = 1,
     events = [Fetch (get_request ''/api/profile/''), LocationAssign ''/login/'']\<rparr>)"
  using fetchUserProfile_unauthorised
    [of "\<lambda>s rq. (Responded \<lparr>status = 401, json = None\<rparr>, Suc s)"
        "\<lparr>document_cookie = [], server = 0, events = []\<rparr>"
        "\<lparr>status = 401, json = None\<rparr>" 1 initial_state]
  by simp

subsection \<open>Failed reads\<close>

text \<open>Each of the two reads, on an outcome that counts as a failure.\<close>

lemma fetchHobbies_failed:
  assumes "failed_outcome (fst (net (server w) (get_request ''/api/hobbies/'')))"
  shows "fetchHobbies net st w =
           (st, w\<lparr>server := snd (net (server w) (get_request ''/api/hobbies/'')),
                   events := events w @
                     [Fetch (get_request ''/api/hobbies/''),
                      ConsoleError ''Error fetching hobbies:''
                        (Some (thrown_by ''Failed to fetch hobbies''
                                 (fst (net (server w) (get_request ''/api/hobbies/'')))))]\<rparr>)"
proof (cases "net (server w) (get_request ''/api/hobbies/'')")
  case (Pair out s)
  show ?thesis
  proof (cases out)
    case Rejected
    with Pair show ?thesis
      by (simp add: fetchHobbies_def fetchHobbies_try_def fetch_def console_error_def
          thrown_by_def)
  next
    case (Responded r)
    with Pair assms have "\<not> ok r \<or> json r = None" by (simp add: failed_outcome_def)
    with Pair Responded show ?thesis
      by (cases "ok r")
        (simp_all add: fetchHobbies_def fetchHobbies_try_def fetch_def console_error_def
          response_json_def thrown_by_def)
  qed
qed

lemma fetchSimilarUsers_failed:
  assumes "failed_outcome (fst (net (server w) (similar_users_request params)))"
  shows "fetchSimilarUsers net params st w =
           (st, w\<lparr>server := snd (net (server w) (similar_users_request params)),
                   events := events w @
                     [Fetch (similar_users_request params),
                      ConsoleError ''Error fetching similar users:''
                        (Some (thrown_by ''Failed to fetch users''
                                 (fst (net (server w) (similar_users_request params)))))]\<rparr>)"
proof (cases "net (server w) (similar_users_request params)")
  case (Pair out s)
  show ?thesis
  proof (cases out)
    case Rejected
    with Pair show ?thesis
      by (simp add: fetchSimilarUsers_def fetchSimilarUsers_try_def fetch_def console_error_def
          thrown_by_def)
  next
    case (Responded r)
    with Pair assms have "\<not> ok r \<or> json r = None" by (simp add: failed_outcome_def)
    with Pair Responded show ?thesis
      by (cases "ok r")
        (simp_all add: fetchSimilarUsers_def fetchSimilarUsers_try_def fetch_def
          console_error_def response_json_def thrown_by_def)
  qed
qed

text \<open>
  C7. A \<^verbatim>\<open>fetchHobbies\<close> or \<^verbatim>\<open>fetchSimilarUsers\<close> call that fails (rejected request,
  status outside 2xx, or a body that is not JSON) leaves every field of the container
  state as it was; the only effect besides the request is the line logged by
  \<^verbatim>\<open>console.error\<close>.
\<close>

theorem failed_fetch_keeps_state:
  "(failed_outcome (fst (net (server w) (get_request ''/api/hobbies/''))) \<longrightarrow>
      fetchHobbies net st w =
           (st, w\<lparr>server := snd (net (server w) (get_request ''/api/hobbies/'')),
                   events := events w @
                     [Fetch (get_request ''/api/hobbies/''),
                      ConsoleError ''Error fetching hobbies:''
                        (Some (thrown_by ''Failed to fetch hobbies''
                                 (fst (net (server w) (get_request ''/api/hobbies/'')))))]\<rparr>)) \<and>
   (failed_outcome (fst (net (server w) (similar_users_request params))) \<longrightarrow>
      fetchSimilarUsers net params st w =
           (st, w\<lparr>server := snd (net (server w) (similar_users_request params)),
                   events := events w @
                     [Fetch (similar_users_request params),
                      ConsoleError ''Error fetching similar users:''
                        (Some (thrown_by ''Failed to fetch users''
                                 (fst (net (server w) (similar_users_request params)))))]\<rparr>))"
  using fetchHobbies_failed fetchSimilarUsers_failed by blast

theorem failed_fetch_keeps_state_witness:
  "failed_outcome (Responded \<lparr>status = 500, json = Some (Obj [(''hobbies'', Arr [])])\<rparr>) \<and>
   fetchHobbies (\<lambda>s rq. (Responded \<lparr>status = 500, json = Some (Obj [(''hobbies'', Arr [])])\<rparr>, Suc s))
     initial_state \<lparr>document_cookie = [], server = 0, events = []\<rparr> =
     (initial_state,
      \<lparr>document_cookie = [], server = 1,
       events = [Fetch (get_request ''/api/hobbies/''),
                 ConsoleError ''Error fetching hobbies:''
                   (Some (Error (Str ''Failed to fetch hobbies'')))]\<rparr>) \<and>
   fetchSimilarUsers (\<lambda>s rq. (Responded \<lparr>status = 500, json = Some (Obj [(''hobbies'', Arr [])])\<rparr>, Suc s))
     \<lparr>page = Integer (safe 1), minAge = None, maxAge = None\<rparr>
     initial_state \<lparr>document_cookie = [], server = 0, events = []\<rparr> =
     (initial_state,
      \<lparr>document_cookie = [], server = 1,
       events = [Fetch (similar_users_request \<lparr>page = Integer (safe 1), minAge = None, maxAge = None\<rparr>),
                 ConsoleError ''Error fetching similar users:''
                   (Some (Error (Str ''Failed to fetch users'')))]\<rparr>)"
proof -
  have failed: "failed_outcome (Responded \<lparr>status = 500, json = Some (Obj [(''hobbies'', Arr [])])\<rparr>)"
    by (simp add: failed_outcome_def ok_def)
  show ?thesis
    using failed
      failed_fetch_keeps_state
        [of "\<lambda>s rq. (Responded \<lparr>status = 500, json = Some (Obj [(''hobbies'', Arr [])])\<rparr>, Suc s)"
            "\<lparr>document_cookie = [], server = 0, events = []\<rparr>" initial_state
            "\<lparr>page = Integer (safe 1), minAge = None, maxAge = None\<rparr>"]
    by (simp add: thrown_by_def ok_def)
qed

subsection \<open>Paging\<close>

text \<open>
  C8. \<^verbatim>\<open>fetchPage(p, lo, hi)\<close> does what \<^verbatim>\<open>fetchSimilarUsers({page: p, minAge: lo,
  maxAge: hi})\<close> does: from the same state and environment both end in the same state and
  the same environment, hence issue the same request, make the same updates and fail alike.
\<close>

theorem fetchPage_delegates:
  "fetchPage net p lo hi st w = fetchSimilarUsers net \<lparr>page = p, minAge = lo, maxAge = hi\<rparr> st w"
  by (simp add: fetchPage_def)

subsection \<open>A 2xx answer that reports a failure\<close>

text \<open>
  The \<^verbatim>\<open>errors\<close> field can be read from every body whose \<^verbatim>\<open>status\<close> field can: the
  last hypothesis of the theorem below only names its value.
\<close>

lemma get_prop_status_errors:
  "get_prop data ''status'' = Inr sv \<Longrightarrow> \<exists>errs. get_prop data ''errors'' = Inr errs"
  by (cases data) auto

text \<open>
  C4. When the server answers the request of \<^verbatim>\<open>addHobby\<close>,
  \<^verbatim>\<open>addExistingHobbyToProfile\<close> or \<^verbatim>\<open>deleteHobbyFromProfile\<close> with a 2xx status and
  a body whose \<^verbatim>\<open>status\<close> field is not \<^verbatim>\<open>'success'\<close>, the action leaves the container
  state as it was, issues no further request (no refetch) and returns
  \<^verbatim>\<open>{ success: false, error: E }\<close>, \<open>E\<close> being the \<^verbatim>\<open>errors\<close> field of the body.
\<close>

theorem logical_failure_keeps_state:
  assumes token: "getCookie (document_cookie w) ''csrftoken'' = Some csrfToken"
    and ok: "ok r" and body: "json r = Some data"
    and status: "get_prop data ''status'' = Inr sv" "sv \<noteq> Str ''success''"
    and errors: "get_prop data ''errors'' = Inr E"
  shows
    "(net (server w) (json_request ''POST'' ''/api/hobbies/'' csrfToken
                        (Obj [(''name'', Str hobbyName)])) = (Responded r, s) \<longrightarrow>
        addHobby net hobbyName st w =
          (Failure (Val E), st,
           w\<lparr>server := s,
             events := events w @ [Fetch (json_request ''POST'' ''/api/hobbies/'' csrfToken
                                            (Obj [(''name'', Str hobbyName)]))]\<rparr>)) \<and>
     (net (server w) (json_request ''POST'' ''/api/profile/add_hobby'' csrfToken
                        (Obj [(''hobby_id'', Num hobbyId)])) = (Responded r, s) \<longrightarrow>
        addExistingHobbyToProfile net hobbyId st w =
          (Failure (Val E), st,
           w\<lparr>server := s,
             events := events w @ [Fetch (json_request ''POST'' ''/api/profile/add_hobby'' csrfToken
                                            (Obj [(''hobby_id'', Num hobbyId)]))]\<rparr>)) \<and>
     (net (server w) (json_request ''POST'' ''/api/profile/delete_hobby'' csrfToken
                        (Obj [(''hobby_id'', Num hobbyId)])) = (Responded r, s) \<longrightarrow>
        deleteHobbyFromProfile net hobbyId st w =
          (Failure (Val E), st,
           w\<lparr>server := s,
             events := events w @ [Fetch (json_request ''POST'' ''/api/profile/delete_hobby'' csrfToken
                                            (Obj [(''hobby_id'', Num hobbyId)]))]\<rparr>))"
proof -
  have tok: "csrfToken \<noteq> []"
    using token by (rule getCookie_nonempty)
  have 1: "net (server w) (json_request ''POST'' ''/api/hobbies/'' csrfToken
                        (Obj [(''name'', Str hobbyName)])) = (Responded r, s) \<Longrightarrow>
        addHobby net hobbyName st w =
          (Failure (Val E), st,
           w\<lparr>server := s,
             events := events w @ [Fetch (json_request ''POST'' ''/api/hobbies/'' csrfToken
                                            (Obj [(''name'', Str hobbyName)]))]\<rparr>)"
    using token tok ok body status errors
    by (simp add: addHobby_def addHobby_try_def catch_failure_def fetch_Responded
        response_json_def)
  have 2: "net (server w) (json_request ''POST'' ''/api/profile/add_hobby'' csrfToken
                        (Obj [(''hobby_id'', Num hobbyId)])) = (Responded r, s) \<Longrightarrow>
        addExistingHobbyToProfile net hobbyId st w =
          (Failure (Val E), st,
           w\<lparr>server := s,
             events := events w @ [Fetch (json_request ''POST'' ''/api/profile/add_hobby'' csrfToken
                                            (Obj [(''hobby_id'', Num hobbyId)]))]\<rparr>)"
    using token tok ok body status errors
    by (simp add: addExistingHobbyToProfile_def addExistingHobbyToProfile_try_def
        catch_failure_def fetch_Responded response_json_def)
  have 3: "net (server w) (json_request ''POST'' ''/api/profile/delete_hobby'' csrfToken
                        (Obj [(''hobby_id'', Num hobbyId)])) = (Responded r, s) \<Longrightarrow>
        deleteHobbyFromProfile net hobbyId st w =
          (Failure (Val E), st,
           w\<lparr>server := s,
             events := events w @ [Fetch (json_request ''POST'' ''/api/profile/delete_hobby'' csrfToken
                                            (Obj [(''hobby_id'', Num hobbyId)]))]\<rparr>)"
    using token tok ok body status errors
    by (simp add: deleteHobbyFromProfile_def deleteHobbyFromProfile_try_def
        catch_failure_def fetch_Responded response_json_def)
  from 1 2 3 show ?thesis by blast
qed

theorem logical_failure_keeps_state_witness:
  "addHobby
     (\<lambda>s rq. (Responded \<lparr>status = 200,
                  json = Some (Obj [(''status'', Str ''error''),
                                    (''errors'', Str ''Hobby already exists'')])\<rparr>, Suc s))
     ''Chess'' initial_state
     \<lparr>document_cookie = ''sessionid=xyz; csrftoken=abc123'', server = 0, events = []\<rparr> =
   (Failure (Val (Str ''Hobby already exists'')), initial_state,
    \<lparr>document_cookie = ''sessionid=xyz; csrftoken=abc123'', server = 1,
     events = [Fetch (json_request ''POST'' ''/api/hobbies/'' ''abc123''
                        (Obj [(''name'', Str ''Chess'')]))]\<rparr>) \<and>
   deleteHobbyFromProfile
     (\<lambda>s rq. (Responded \<lparr>status = 200,
                  json = Some (Obj [(''status'', Str ''error''),
                                    (''errors'', Str ''Hobby already exists'')])\<rparr>, Suc s))
     7 initial_state
     \<lparr>document_cookie = ''sessionid=xyz; csrftoken=abc123'', server = 0, events = []\<rparr> =
   (Failure (Val (Str ''Hobby already exists'')), initial_state,
    \<lparr>document_cookie = ''sessionid=xyz; csrftoken=abc123'', server = 1,
     events = [Fetch (json_request ''POST'' ''/api/profile/delete_hobby'' ''abc123''
                        (Obj [(''hobby_id'', Num 7)]))]\<rparr>)"
proof -
  have tok: "getCookie ''sessionid=xyz; csrftoken=abc123'' ''csrftoken'' = Some ''abc123''"
    by (simp add: getCookie_def)
  show ?thesis
    using tok
      logical_failure_keeps_state
        [of "\<lparr>document_cookie = ''sessionid=xyz; csrftoken=abc123'', server = 0, events = []\<rparr>"
            "''abc123''"
            "\<lparr>status = 200,
                  json = Some (Obj [(''status'', Str ''error''),
                                    (''errors'', Str ''Hobby already exists'')])\<rparr>"
            "Obj [(''status'', Str ''error''), (''errors'', Str ''Hobby already exists'')]"
            "Str ''error''" "Str ''Hobby already exists''"
            "\<lambda>s rq. (Responded \<lparr>status = 200,
                  json = Some (Obj [(''status'', Str ''error''),
                                    (''errors'', Str ''Hobby already exists'')])\<rparr>, Suc s)"
            "''Chess''" 1 initial_state 7]
    by (simp add: ok_def)
qed

subsection \<open>The request of \<^verbatim>\<open>fetchSimilarUsers\<close>\<close>

text \<open>
  The decimal numeral of an integer is made of digits and a sign, which the query string
  leaves as they are.
\<close>

lemma nat_toString_digits: "c \<in> set (nat_toString n) \<Longrightarrow> \<exists>d<10. c = digit_char d"
proof (induction n rule: nat_toString.induct)
  case (1 n)
  show ?case
  proof (cases "n < 10")
    case True
    with "1.prems" show ?thesis by (subst (asm) nat_toString.simps) auto
  next
    case False
    with "1.prems" have "c \<in> set (nat_toString (n div 10)) \<or> c = digit_char (n mod 10)"
      by (subst (asm) nat_toString.simps) auto
    then show ?thesis
    proof
      assume "c \<in> set (nat_toString (n div 10))"
      with False "1.IH" show ?thesis by blast
    next
      assume "c = digit_char (n mod 10)"
      moreover have "n mod 10 < 10" by simp
      ultimately show ?thesis by blast
    qed
  qed
qed

lemma urlencode_digit: "d < 10 \<Longrightarrow> urlencode_char (digit_char d) = [digit_char d]"
proof -
  assume "d < 10"
  then have "d = 0 \<or> d = 1 \<or> d = 2 \<or> d = 3 \<or> d = 4 \<or> d = 5 \<or> d = 6 \<or> d = 7 \<or> d = 8 \<or> d = 9"
    by arith
  then show ?thesis by (elim disjE) (simp_all add: urlencode_char_def unreserved_def digit_char_def)
qed

lemma urlencode_id: "(\<And>c. c \<in> set s \<Longrightarrow> urlencode_char c = [c]) \<Longrightarrow> urlencode s = s"
  by (induction s) (simp_all add: urlencode_def)

lemma urlencode_nat: "urlencode (nat_toString n) = nat_toString n"
  using nat_toString_digits urlencode_digit by (intro urlencode_id) blast

lemma urlencode_int: "urlencode (int_toString i) = int_toString i"
proof (cases "i < 0")
  case True
  have "urlencode (CHR ''-'' # nat_toString (nat (- i))) =
      urlencode_char CHR ''-'' @ urlencode (nat_toString (nat (- i)))"
    by (simp add: urlencode_def)
  also have "urlencode_char CHR ''-'' = ''-''" by (simp add: urlencode_char_def unreserved_def)
  finally show ?thesis using True by (simp add: int_toString_def urlencode_nat)
next
  case False
  then show ?thesis by (simp add: int_toString_def urlencode_nat)
qed

lemma urlencode_keys:
  "urlencode ''page'' = ''page''" "urlencode ''min_age'' = ''min_age''"
  "urlencode ''max_age'' = ''max_age''"
  by (simp_all add: urlencode_def urlencode_char_def unreserved_def)

text \<open>The request written out: every field of it, and the URL piece by piece.\<close>

lemma similar_users_url:
  "similar_users_request params =
     \<lparr>url = ''/api/users/similar_with_filters/?page='' @
             urlencode (number_toString (page params)) @
             (case minAge params of
                None \<Rightarrow> []
              | Some a \<Rightarrow>
                  if number_truthy a then ''&min_age='' @ urlencode (number_toString a) else []) @
             (case maxAge params of
                None \<Rightarrow> []
              | Some a \<Rightarrow>
                  if number_truthy a then ''&max_age='' @ urlencode (number_toString a) else []),
      method' = ''GET'', credentials = ''include'', headers = [], body = None\<rparr>"
  by (simp add: similar_users_request_def get_request_def queryParams_def append_if_truthy_def
      append_param_def params_toString_def urlencode_keys split: option.splits)

text \<open>The call issues its one request whatever the answer is.\<close>

lemma fetchSimilarUsers_try_env:
  "snd (snd (fetchSimilarUsers_try net params st w)) =
     snd (fetch net (similar_users_request params) w)"
proof (cases "fetch net (similar_users_request params) w")
  case (Pair a w1)
  show ?thesis
  proof (cases a)
    case (Inl e)
    with Pair show ?thesis by (simp add: fetchSimilarUsers_try_def)
  next
    case (Inr r)
    with Pair show ?thesis
      by (simp add: fetchSimilarUsers_try_def split: sum.splits)
  qed
qed

lemma fetchSimilarUsers_requests:
  "requests (events (snd (fetchSimilarUsers net params st w))) =
     requests (events w) @ [similar_users_request params]"
proof -
  obtain a st1 w1 where t: "fetchSimilarUsers_try net params st w = (a, st1, w1)"
    by (cases "fetchSimilarUsers_try net params st w") auto
  then have "w1 = w\<lparr>server := snd (net (server w) (similar_users_request params)),
                     events := events w @ [Fetch (similar_users_request params)]\<rparr>"
    using fetchSimilarUsers_try_env[of net params st w] by (simp add: fetch_env)
  then show ?thesis using t
    by (cases a) (simp_all add: fetchSimilarUsers_def console_error_def requests_append)
qed








text \<open>
  C6. \<^verbatim>\<open>fetchSimilarUsers({page: 2, minAge: 18, maxAge: 30})\<close> issues exactly one
  request, a \<^verbatim>\<open>GET\<close> of
  \<^verbatim>\<open>/api/users/similar_with_filters/?page=2&min_age=18&max_age=30\<close>; when the answer
  is 2xx with the body \<^verbatim>\<open>{similar_users: S, page: 2, total_pages: 5}\<close>, the call sets
  \<^verbatim>\<open>similarUsers\<close> to \<open>S\<close>, \<^verbatim>\<open>currentPage\<close> to 2 and \<^verbatim>\<open>totalPages\<close> to 5.
\<close>

theorem fetchSimilarUsers_page_2:
  "requests (events (snd (fetchSimilarUsers net
      \<lparr>page = Integer (safe 2), minAge = Some (Integer (safe 18)),
        maxAge = Some (Integer (safe 30))\<rparr> st w))) =
     requests (events w) @
       [\<lparr>url = ''/api/users/similar_with_filters/?page=2&min_age=18&max_age=30'',
          method' = ''GET'', credentials = ''include'', headers = [], body = None\<rparr>] \<and>
   (net (server w)
      \<lparr>url = ''/api/users/similar_with_filters/?page=2&min_age=18&max_age=30'',
          method' = ''GET'', credentials = ''include'', headers = [], body = None\<rparr> =
      (Responded r, s) \<and> ok r \<and>
    json r = Some (Obj [(''similar_users'', S), (''page'', Num 2), (''total_pages'', Num 5)]) \<longrightarrow>
    fetchSimilarUsers net
      \<lparr>page = Integer (safe 2), minAge = Some (Integer (safe 18)),
        maxAge = Some (Integer (safe 30))\<rparr> st w =
      (st\<lparr>similarUsers := S, currentPage := Num 2, totalPages := Num 5\<rparr>,
       w\<lparr>server := s,
         events := events w @
           [Fetch \<lparr>url = ''/api/users/similar_with_filters/?page=2&min_age=18&max_age=30'',
          method' = ''GET'', credentials = ''include'', headers = [], body = None\<rparr>]\<rparr>))"
proof -
  have rq: "similar_users_request
      \<lparr>page = Integer (safe 2), minAge = Some (Integer (safe 18)),
        maxAge = Some (Integer (safe 30))\<rparr> =
      \<lparr>url = ''/api/users/similar_with_filters/?page=2&min_age=18&max_age=30'',
          method' = ''GET'', credentials = ''include'', headers = [], body = None\<rparr>"
    by (simp add: similar_users_url number_toString_def number_truthy_def safe_inverse
        int_toString_def nat_toString.simps digit_char_def urlencode_def urlencode_char_def
        unreserved_def)
  have one: "requests (events (snd (fetchSimilarUsers net
      \<lparr>page = Integer (safe 2), minAge = Some (Integer (safe 18)),
        maxAge = Some (Integer (safe 30))\<rparr> st w))) =
     requests (events w) @
       [\<lparr>url = ''/api/users/similar_with_filters/?page=2&min_age=18&max_age=30'',
          method' = ''GET'', credentials = ''include'', headers = [], body = None\<rparr>]"
    using fetchSimilarUsers_requests[of net "\<lparr>page = Integer (safe 2), minAge = Some (Integer (safe 18)),
        maxAge = Some (Integer (safe 30))\<rparr>" st w]
    by (simp only: rq)
  have upd: "fetchSimilarUsers net
      \<lparr>page = Integer (safe 2), minAge = Some (Integer (safe 18)),
        maxAge = Some (Integer (safe 30))\<rparr> st w =
      (st\<lparr>similarUsers := S, currentPage := Num 2, totalPages := Num 5\<rparr>,
       w\<lparr>server := s,
         events := events w @
           [Fetch \<lparr>url = ''/api/users/similar_with_filters/?page=2&min_age=18&max_age=30'',
          method' = ''GET'', credentials = ''include'', headers = [], body = None\<rparr>]\<rparr>)"
    if "net (server w)
      \<lparr>url = ''/api/users/similar_with_filters/?page=2&min_age=18&max_age=30'',
          method' = ''GET'', credentials = ''include'', headers = [], body = None\<rparr> =
      (Responded r, s)" "ok r"
      "json r = Some (Obj [(''similar_users'', S), (''page'', Num 2), (''total_pages'', Num 5)])"
    using that
    by (simp add: fetchSimilarUsers_def fetchSimilarUsers_try_def rq fetch_Responded
        response_json_def)
  from one upd show ?thesis by blast
qed

theorem fetchSimilarUsers_page_2_witness:
  "fetchSimilarUsers
     (\<lambda>s rq. (Responded \<lparr>status = 200,
                  json = Some (Obj [(''similar_users'', Arr [Obj [(''username'', Str ''grace'')]]),
                                    (''page'', Num 2), (''total_pages'', Num 5)])\<rparr>, Suc s))
     \<lparr>page = Integer (safe 2), minAge = Some (Integer (safe 18)),
        maxAge = Some (Integer (safe 30))\<rparr>
     initial_state \<lparr>document_cookie = [], server = 0, events = []\<rparr> =
   (\<lparr>userData = Null, similarUsers = Arr [Obj [(''username'', Str ''grace'')]],
     currentPage = Num 2, totalPages = Num 5, hobbies = Arr []\<rparr>,
    \<lparr>document_cookie = [], server = 1,
     events = [Fetch \<lparr>url = ''/api/users/similar_with_filters/?page=2&min_age=18&max_age=30'',
          method' = ''GET'', credentials = ''include'', headers = [], body = None\<rparr>]\<rparr>)"
  using fetchSimilarUsers_page_2
    [of "\<lambda>s rq. (Responded \<lparr>status = 200,
                  json = Some (Obj [(''similar_users'', Arr [Obj [(''username'', Str ''grace'')]]),
                                    (''page'', Num 2), (''total_pages'', Num 5)])\<rparr>, Suc s)"
        initial_state "\<lparr>document_cookie = [], server = 0, events = []\<rparr>"
        "\<lparr>status = 200,
                  json = Some (Obj [(''similar_users'', Arr [Obj [(''username'', Str ''grace'')]]),
                                    (''page'', Num 2), (''total_pages'', Num 5)])\<rparr>" 1
        "Arr [Obj [(''username'', Str ''grace'')]]"]
  by (simp add: ok_def initial_state_def)

text \<open>A safe integer stands in the URL as its decimal numeral.\<close>

lemma urlencode_integer:
  "urlencode (number_toString (Integer i)) = int_toString (int_of i)"
  by (simp add: number_toString_def urlencode_int)



subsection \<open>Updating the profile\<close>

text \<open>The hobbies sent, and what \<^verbatim>\<open>fetchUserProfile\<close> leaves behind.\<close>

lemma get_prop_set_prop: "get_prop (Obj (set_prop k v kvs)) k = Inr v"
  by (induction kvs) auto

lemma hobby_to_id_ref: "is_hobby_ref h \<Longrightarrow> hobby_to_id h = Inr (hobby_id h) \<and> is_num (hobby_id h)"
  by (cases h) (auto split: option.splits)

lemma map_throwing_refs:
  "\<forall>h \<in> set hs. is_hobby_ref h \<Longrightarrow>
   map_throwing hobby_to_id hs = Inr (map hobby_id hs) \<and> list_all is_num (map hobby_id hs)"
  by (induction hs) (auto simp: hobby_to_id_ref)

lemma fetchUserProfile_result:
  "fetchUserProfile net st w =
     (profile_after_refetch (fst (net (server w) (get_request ''/api/profile/''))) st,
      snd (fetchUserProfile net st w))"
proof (cases "net (server w) (get_request ''/api/profile/'')")
  case (Pair out s)
  show ?thesis
  proof (cases out)
    case Rejected
    with Pair show ?thesis
      by (simp add: fetchUserProfile_def fetchUserProfile_try_def fetch_def
          profile_after_refetch_def)
  next
    case (Responded r)
    with Pair show ?thesis
      by (cases "json r")
        (simp_all add: fetchUserProfile_def fetchUserProfile_try_def fetch_def
          profile_after_refetch_def response_json_def)
  qed
qed

lemma fetchUserProfile_requests:
  "requests (events (snd (fetchUserProfile net st w))) =
     requests (events w) @ [get_request ''/api/profile/'']"
proof (cases "net (server w) (get_request ''/api/profile/'')")
  case (Pair out s)
  show ?thesis
  proof (cases out)
    case Rejected
    with Pair show ?thesis
      by (simp add: fetchUserProfile_def fetchUserProfile_try_def fetch_def
          console_error_def location_assign_def requests_append)
  next
    case (Responded r)
    with Pair show ?thesis
      by (cases "json r")
        (simp_all add: fetchUserProfile_def fetchUserProfile_try_def fetch_def
          console_error_def location_assign_def requests_append response_json_def)
  qed
qed

text \<open>\<^verbatim>\<open>updateProfile\<close> once the token is there and the hobbies are formatted.\<close>

lemma updateProfile_try_token:
  assumes "getCookie (document_cookie w) ''csrftoken'' = Some csrfToken"
    and "get_prop (Obj updatedData) ''hobbies'' = Inr hs" and "format_hobbies hs = Inr ids"
  shows "updateProfile_try net updatedData st w =
     (case fetch net (json_request ''PUT'' ''/api/profile/'' csrfToken
                        (Obj (set_prop ''hobbies'' ids updatedData))) w of
        (Inl e, w1) \<Rightarrow> (Inl e, st, w1)
      | (Inr response, w1) \<Rightarrow>
          if \<not> ok response then
            (case response_json response of
               Inl e \<Rightarrow> (Inl e, st, w1)
             | Inr errorData \<Rightarrow>
                 (case get_prop errorData ''errors'' of
                    Inl e \<Rightarrow> (Inl e, st, w1)
                  | Inr errors \<Rightarrow>
                      (Inl (Error (if truthy errors then errors
                                   else Str ''Failed to update profile'')),
                       st, w1)))
          else
            (case fetchUserProfile net st w1 of
               (st2, w2) \<Rightarrow> (Inr Success, st2, w2)))"
  using assms getCookie_nonempty[OF assms(1)]
  by (simp add: updateProfile_try_def del: get_prop.simps)

lemma updateProfile_requests_token:
  assumes "getCookie (document_cookie w) ''csrftoken'' = Some csrfToken"
    and "get_prop (Obj updatedData) ''hobbies'' = Inr hs" and "format_hobbies hs = Inr ids"
  shows "\<exists>rest. requests (events (snd (snd (updateProfile net updatedData st w)))) =
           requests (events w) @
             json_request ''PUT'' ''/api/profile/'' csrfToken
               (Obj (set_prop ''hobbies'' ids updatedData)) # rest \<and>
           set rest \<subseteq> {get_request ''/api/profile/''}"
proof -
  let ?rq = "json_request ''PUT'' ''/api/profile/'' csrfToken (Obj (set_prop ''hobbies'' ids updatedData))"
  obtain a w1 where f: "fetch net ?rq w = (a, w1)" by (cases "fetch net ?rq w") auto
  have w1: "requests (events w1) = requests (events w) @ [?rq]"
    using fetch_requests[of net ?rq w] f by simp
  show ?thesis
  proof (cases a)
    case (Inl e)
    then show ?thesis using w1 f
      by (simp add: updateProfile_def updateProfile_try_token[OF assms] catch_failure_def
          console_error_def requests_append)
  next
    case (Inr r)
    show ?thesis
    proof (cases "ok r")
      case True
      obtain st2 w2 where p: "fetchUserProfile net st w1 = (st2, w2)"
        by (cases "fetchUserProfile net st w1") auto
      then have "requests (events w2) = requests (events w1) @ [get_request ''/api/profile/'']"
        using fetchUserProfile_requests[of net st w1] by simp
      then show ?thesis using w1 f Inr True p
        by (simp add: updateProfile_def updateProfile_try_token[OF assms] catch_failure_def)
    next
      case False
      then show ?thesis using w1 f Inr
        by (simp add: updateProfile_def updateProfile_try_token[OF assms] catch_failure_def
            console_error_def requests_append split: sum.splits)
    qed
  qed
qed

text \<open>
  C5. When the \<^verbatim>\<open>hobbies\<close> of the input of \<^verbatim>\<open>updateProfile\<close> is a list of raw numeric
  ids and \<^verbatim>\<open>Hobby\<close> objects, the \<^verbatim>\<open>hobbies\<close> field of the body of the \<^verbatim>\<open>PUT\<close> request
  is that list with every object replaced by its \<^verbatim>\<open>id\<close>: numbers only, in the order of
  the input; the other fields of the input are sent as they are. The request is the first one the call issues whenever the CSRF token is
  there (anything after it reads the profile); without the token no request is issued.
\<close>

theorem updateProfile_sends_hobby_ids:
  assumes "map_of updatedData ''hobbies'' = Some (Arr hs)" and "\<forall>h \<in> set hs. is_hobby_ref h"
  shows "list_all is_num (map hobby_id hs) \<and>
         get_prop (Obj (set_prop ''hobbies'' (Arr (map hobby_id hs)) updatedData)) ''hobbies'' =
           Inr (Arr (map hobby_id hs)) \<and>
         (getCookie (document_cookie w) ''csrftoken'' = None \<longrightarrow>
            requests (events (snd (snd (updateProfile net updatedData st w)))) =
              requests (events w)) \<and>
         (\<forall>csrfToken. getCookie (document_cookie w) ''csrftoken'' = Some csrfToken \<longrightarrow>
            (\<exists>rest. requests (events (snd (snd (updateProfile net updatedData st w)))) =
                      requests (events w) @
                        \<lparr>url = ''/api/profile/'', method' = ''PUT'', credentials = ''include'',
                          headers = [(''Content-Type'', ''application/json''),
                                     (''X-CSRFToken'', csrfToken)],
                          body = Some (Obj (set_prop ''hobbies'' (Arr (map hobby_id hs))
                                              updatedData))\<rparr> # rest \<and>
                    set rest \<subseteq> {\<lparr>url = ''/api/profile/'', method' = ''GET'',
                                   credentials = ''include'', headers = [], body = None\<rparr>}))"
proof -
  have ids: "map_throwing hobby_to_id hs = Inr (map hobby_id hs)"
    and nums: "list_all is_num (map hobby_id hs)"
    using map_throwing_refs[OF assms(2)] by simp_all
  have hob_prop: "get_prop (Obj updatedData) ''hobbies'' = Inr (Arr hs)"
    using assms(1) by simp
  have fmt: "format_hobbies (Arr hs) = Inr (Arr (map hobby_id hs))"
    by (simp add: format_hobbies_def ids)
  have none: "requests (events (snd (snd (updateProfile net updatedData st w)))) = requests (events w)"
    if "getCookie (document_cookie w) ''csrftoken'' = None"
    using that
    by (simp add: updateProfile_def updateProfile_try_def csrf_missing_def catch_failure_def
        console_error_def requests_append)
  have some: "\<exists>rest. requests (events (snd (snd (updateProfile net updatedData st w)))) =
                      requests (events w) @
                        \<lparr>url = ''/api/profile/'', method' = ''PUT'', credentials = ''include'',
                          headers = [(''Content-Type'', ''application/json''),
                                     (''X-CSRFToken'', csrfToken)],
                          body = Some (Obj (set_prop ''hobbies'' (Arr (map hobby_id hs))
                                              updatedData))\<rparr> # rest \<and>
                    set rest \<subseteq> {\<lparr>url = ''/api/profile/'', method' = ''GET'',
                                   credentials = ''include'', headers = [], body = None\<rparr>}"
    if "getCookie (document_cookie w) ''csrftoken'' = Some csrfToken" for csrfToken
    using updateProfile_requests_token[OF that hob_prop fmt, of net st]
    by (simp add: json_request_def get_request_def)
  from nums none some show ?thesis unfolding get_prop_set_prop by blast
qed

theorem updateProfile_sends_hobby_ids_witness:
  "requests (events (snd (snd (updateProfile (\<lambda>s rq. (Rejected, s))
      [(''bio'', Str ''hello''),
       (''hobbies'', Arr [Num 3, Obj [(''id'', Num 7), (''name'', Str ''Chess'')], Num 5])]
      initial_state
      \<lparr>document_cookie = ''csrftoken=abc123'', server = (), events = []\<rparr>)))) =
   [\<lparr>url = ''/api/profile/'', method' = ''PUT'', credentials = ''include'',
     headers = [(''Content-Type'', ''application/json''), (''X-CSRFToken'', ''abc123'')],
     body = Some (Obj [(''bio'', Str ''hello''), (''hobbies'', Arr [Num 3, Num 7, Num 5])])\<rparr>]"
proof -
  have tok: "getCookie ''csrftoken=abc123'' ''csrftoken'' = Some ''abc123''"
    by (simp add: getCookie_def)
  have refs: "\<forall>h \<in> set [Num 3, Obj [(''id'', Num 7), (''name'', Str ''Chess'')], Num 5]. is_hobby_ref h"
    by simp
  have hob: "map_of [(''bio'', Str ''hello''),
       (''hobbies'', Arr [Num 3, Obj [(''id'', Num 7), (''name'', Str ''Chess'')], Num 5])] ''hobbies'' =
     Some (Arr [Num 3, Obj [(''id'', Num 7), (''name'', Str ''Chess'')], Num 5])"
    by simp
  from updateProfile_sends_hobby_ids
    [OF hob refs, of "\<lparr>document_cookie = ''csrftoken=abc123'', server = (), events = []\<rparr>"
        "\<lambda>s rq. (Rejected, s)" initial_state]
  obtain rest where
    "requests (events (snd (snd (updateProfile (\<lambda>s rq. (Rejected, s))
      [(''bio'', Str ''hello''),
       (''hobbies'', Arr [Num 3, Obj [(''id'', Num 7), (''name'', Str ''Chess'')], Num 5])]
      initial_state
      \<lparr>document_cookie = ''csrftoken=abc123'', server = (), events = []\<rparr>)))) =
     \<lparr>url = ''/api/profile/'', method' = ''PUT'', credentials = ''include'',
      headers = [(''Content-Type'', ''application/json''), (''X-CSRFToken'', ''abc123'')],
      body = Some (Obj [(''bio'', Str ''hello''), (''hobbies'', Arr [Num 3, Num 7, Num 5])])\<rparr> # rest"
    using tok by auto
  moreover have "length (requests (events (snd (snd (updateProfile (\<lambda>s rq. (Rejected, s))
      [(''bio'', Str ''hello''),
       (''hobbies'', Arr [Num 3, Obj [(''id'', Num 7), (''name'', Str ''Chess'')], Num 5])]
      initial_state
      \<lparr>document_cookie = ''csrftoken=abc123'', server = (), events = []\<rparr>))))) = 1"
    using tok
    by (simp add: updateProfile_def updateProfile_try_def format_hobbies_def fetch_def
        catch_failure_def console_error_def)
  ultimately show ?thesis by simp
qed

text \<open>
  C1, with the refetch that can fail. When \<^verbatim>\<open>updateProfile\<close> returns
  \<^verbatim>\<open>{ success: true }\<close>, the \<^verbatim>\<open>PUT\<close> was answered with a 2xx status and the state is
  the one the refetch of \<^verbatim>\<open>GET /api/profile/\<close> leaves: if that request is answered 2xx
  with a JSON body, \<^verbatim>\<open>userData\<close> is exactly that body, the server's full document;
  otherwise the state, \<^verbatim>\<open>userData\<close> included, is as it was before the call. It is
  never a local merge of the old state and the update.
\<close>

theorem updateProfile_success_refetches:
  assumes "updateProfile net updatedData st w = (Success, st', w')"
  shows "\<exists>csrfToken hs ids r s1.
           getCookie (document_cookie w) ''csrftoken'' = Some csrfToken \<and>
           get_prop (Obj updatedData) ''hobbies'' = Inr hs \<and> format_hobbies hs = Inr ids \<and>
           net (server w) (json_request ''PUT'' ''/api/profile/'' csrfToken
                             (Obj (set_prop ''hobbies'' ids updatedData))) = (Responded r, s1) \<and>
           ok r \<and>
           st' = profile_after_refetch (fst (net s1 (get_request ''/api/profile/''))) st"
proof -
  have tried: "updateProfile_try net updatedData st w = (Inr Success, st', w')"
    using assms
    by (cases "updateProfile_try net updatedData st w" rule: prod_cases3)
      (auto simp: updateProfile_def catch_failure_def split: sum.splits)
  obtain csrfToken where tok: "getCookie (document_cookie w) ''csrftoken'' = Some csrfToken"
    using tried by (cases "getCookie (document_cookie w) ''csrftoken''")
      (auto simp: updateProfile_try_def csrf_missing_def)
  obtain hs where hs: "get_prop (Obj updatedData) ''hobbies'' = Inr hs" by simp
  obtain ids where ids: "format_hobbies hs = Inr ids"
    using tried tok hs getCookie_nonempty[OF tok]
    by (cases "format_hobbies hs") (auto simp: updateProfile_try_def)
  let ?rq = "json_request ''PUT'' ''/api/profile/'' csrfToken (Obj (set_prop ''hobbies'' ids updatedData))"
  note step = updateProfile_try_token[OF tok hs ids, of net st]
  obtain out s1 where net: "net (server w) ?rq = (out, s1)" by (cases "net (server w) ?rq") auto
  obtain r where r: "out = Responded r"
    using tried step net by (cases out) (auto simp: fetch_def)
  have f: "fetch net ?rq w = (Inr r, w\<lparr>server := s1, events := events w @ [Fetch ?rq]\<rparr>)"
    using net r by (simp add: fetch_def)
  have okr: "ok r"
    using tried step f by (cases "ok r") (auto split: sum.splits)
  have "fetchUserProfile net st (w\<lparr>server := s1, events := events w @ [Fetch ?rq]\<rparr>) = (st', w')"
    using tried step f okr by (auto split: prod.splits)
  then have "st' = profile_after_refetch (fst (net s1 (get_request ''/api/profile/''))) st"
    using fetchUserProfile_result[of net st "w\<lparr>server := s1, events := events w @ [Fetch ?rq]\<rparr>"]
    by simp
  with tok hs ids net r okr show ?thesis by blast
qed

theorem updateProfile_success_refetches_witness:
  "updateProfile
     (\<lambda>s rq. (Responded \<lparr>status = 200, json = Some (Obj [(''username'', Str ''ada'')])\<rparr>, Suc s))
     [(''email'', Str ''ada@example.org'')] initial_state
     \<lparr>document_cookie = ''csrftoken=abc123'', server = 0, events = []\<rparr> =
   (Success, initial_state\<lparr>userData := Obj [(''username'', Str ''ada'')]\<rparr>,
    \<lparr>document_cookie = ''csrftoken=abc123'', server = 2,
     events = [Fetch (json_request ''PUT'' ''/api/profile/'' ''abc123''
                        (Obj [(''email'', Str ''ada@example.org''), (''hobbies'', Undefined)])),
               Fetch (get_request ''/api/profile/'')]\<rparr>) \<and>
   initial_state\<lparr>userData := Obj [(''username'', Str ''ada'')]\<rparr> =
     profile_after_refetch
       (Responded \<lparr>status = 200, json = Some (Obj [(''username'', Str ''ada'')])\<rparr>) initial_state"
proof -
  have tok: "getCookie ''csrftoken=abc123'' ''csrftoken'' = Some ''abc123''"
    by (simp add: getCookie_def)
  have run: "updateProfile
     (\<lambda>s rq. (Responded \<lparr>status = 200, json = Some (Obj [(''username'', Str ''ada'')])\<rparr>, Suc s))
     [(''email'', Str ''ada@example.org'')] initial_state
     \<lparr>document_cookie = ''csrftoken=abc123'', server = 0, events = []\<rparr> =
   (Success, initial_state\<lparr>userData := Obj [(''username'', Str ''ada'')]\<rparr>,
    \<lparr>document_cookie = ''csrftoken=abc123'', server = 2,
     events = [Fetch (json_request ''PUT'' ''/api/profile/'' ''abc123''
                        (Obj [(''email'', Str ''ada@example.org''), (''hobbies'', Undefined)])),
               Fetch (get_request ''/api/profile/'')]\<rparr>)"
    by (simp add: updateProfile_def updateProfile_try_def tok format_hobbies_def fetch_def
        ok_def catch_failure_def fetchUserProfile_def fetchUserProfile_try_def
        response_json_def)
  from updateProfile_success_refetches[OF run]
  have "initial_state\<lparr>userData := Obj [(''username'', Str ''ada'')]\<rparr> =
     profile_after_refetch
       (Responded \<lparr>status = 200, json = Some (Obj [(''username'', Str ''ada'')])\<rparr>) initial_state"
    by auto
  with run show ?thesis by simp
qed


text \<open>
  \<^verbatim>\<open>fetchUserProfile\<close> keeps its failures to itself, so \<^verbatim>\<open>updateProfile\<close> reports
  success also when the refetch failed. With a server whose first read of the profile
  fails, the call returns \<^verbatim>\<open>{ success: true }\<close> and \<^verbatim>\<open>userData\<close> is still
  \<^verbatim>\<open>null\<close>, while the server now returns a document for \<^verbatim>\<open>GET /api/profile/\<close>.
\<close>

theorem updateProfile_stale_counterexample:
  "updateProfile flaky_server [(''email'', Str ''ada@example.org'')] initial_state
     \<lparr>document_cookie = ''csrftoken=abc123'', server = 0, events = []\<rparr> =
   (Success, initial_state,
    \<lparr>document_cookie = ''csrftoken=abc123'', server = 1,
     events = [Fetch (json_request ''PUT'' ''/api/profile/'' ''abc123''
                        (Obj [(''email'', Str ''ada@example.org''), (''hobbies'', Undefined)])),
               Fetch (get_request ''/api/profile/''),
               ConsoleError ''Error fetching profile:''
                 (Some (Error (Str ''Network response was not ok''))),
               LocationAssign ''/login/'']\<rparr>) \<and>
   flaky_server 1 (get_request ''/api/profile/'') =
     (Responded \<lparr>status = 200, json = Some (Obj [(''username'', Str ''ada'')])\<rparr>, 2) \<and>
   userData initial_state \<noteq> Obj [(''username'', Str ''ada'')]"
proof -
  have tok: "getCookie ''csrftoken=abc123'' ''csrftoken'' = Some ''abc123''"
    by (simp add: getCookie_def)
  show ?thesis
    by (simp add: updateProfile_def updateProfile_try_def tok format_hobbies_def fetch_def
        flaky_server_def json_request_def get_request_def ok_def catch_failure_def
        fetchUserProfile_def fetchUserProfile_try_def console_error_def location_assign_def
        initial_state_def)
qed

end
